theory Spec2Isabelle
  imports Complex_Main
begin

section \<open>Data model of \<open>vspyplugin/base.py\<close>\<close>

text \<open>
  The host library's objects are modelled by the attributes the module reads.
  A pixel format is the record of the attributes of \<open>vs.VideoFormat\<close> that
  \<open>base.py\<close> looks at; two formats have the same \<open>id\<close> exactly when these
  records are equal. A frame is the list of its channel-planes (\<open>frame[p]\<close> is
  list indexing and raises \<open>IndexError\<close> out of range), a channel-plane is the
  list of its samples. Samples are idealised as real numbers: the rounding of
  floating point samples is outside the model.
\<close>

datatype sample_type = INTEGER | FLOAT

record video_format =
  sample_type :: sample_type
  bits_per_sample :: nat
  subsampling_w :: nat
  subsampling_h :: nat
  num_planes :: nat

type_synonym plane = "real list"
type_synonym frame = "plane list"

text \<open>
  Every validation failure of the module is a Python \<open>ValueError\<close>; the
  constructors below separate them by the message that is raised:
  \<open>ConfigurationError\<close> is the \<open>shift_chroma\<close> message of \<open>norm_clip\<close>,
  \<open>StreamCountError\<close> the "You must pass ... n clips" message,
  \<open>SubsamplingError\<close> the two "subsampled clip" messages (for the output, the
  reference clip, or an auxiliary clip index). \<open>IndexError\<close> and \<open>KeyError\<close>
  are Python's own, \<open>FetchError\<close> is a failed frame request.
\<close>

datatype stream_ref = Output | RefClip | ClipIndex int

datatype error =
    ConfigurationError
  | StreamCountError
  | SubsamplingError stream_ref
  | IndexError
  | KeyError
  | FetchError

text \<open>A clip (\<open>vs.VideoNode\<close>): its format, its length, and the frame the host
  delivers for each index (which may fail).\<close>

record clip =
  format :: video_format
  num_frames :: nat
  frame_at :: "nat \<Rightarrow> error + frame"

text \<open>Python list indexing with a non-negative index.\<close>

definition getitem :: "'a list \<Rightarrow> nat \<Rightarrow> error + 'a" where
  "getitem xs i = (if i < length xs then Inr (xs ! i) else Inl IndexError)"

section \<open>Host filters used by \<open>PyPluginOptions\<close>\<close>

text \<open>
  \<open>resize.Point\<close> and \<open>resize.Bicubic\<close> are called with a target format only,
  so they keep the geometry and convert every sample of every plane. The
  conversion itself belongs to the host and is a parameter \<open>conv\<close>: source
  format, target format, plane index, sample.
\<close>

type_synonym conversion = "video_format \<Rightarrow> video_format \<Rightarrow> nat \<Rightarrow> real \<Rightarrow> real"

definition map_planes :: "(nat \<Rightarrow> real \<Rightarrow> real) \<Rightarrow> frame \<Rightarrow> frame" where
  "map_planes g f = map (\<lambda>(p, pl). map (g p) pl) (enumerate 0 f)"

definition resize :: "conversion \<Rightarrow> video_format \<Rightarrow> clip \<Rightarrow> clip" where
  "resize conv target c =
     c\<lparr>format := target,
       frame_at := (\<lambda>n. map_sum id (map_planes (conv (format c) target)) (frame_at c n))\<rparr>"

text \<open>
  \<open>std.Expr\<close> takes one expression per plane; a plane beyond the list uses the
  last expression, and the empty expression copies the plane. Only the two
  expressions that \<open>norm_clip\<close> passes are modelled: \<open>''\<close> and \<open>'x 0.5 +'\<close>.
\<close>

datatype expr = EmptyExpr | XPlusHalf

fun eval_expr :: "expr \<Rightarrow> real \<Rightarrow> real" where
  "eval_expr EmptyExpr x = x"
| "eval_expr XPlusHalf x = x + 0.5"

definition expr_for :: "expr list \<Rightarrow> nat \<Rightarrow> expr" where
  "expr_for es p = (if p < length es then es ! p else last es)"

definition std_Expr :: "expr list \<Rightarrow> clip \<Rightarrow> clip" where
  "std_Expr es c =
     c\<lparr>frame_at := (\<lambda>n. map_sum id (map_planes (\<lambda>p. eval_expr (expr_for es p))) (frame_at c n))\<rparr>"

section \<open>\<open>PyPluginOptions\<close>\<close>

text \<open>\<open>float_processing: bool | Literal[16, 32]\<close>.\<close>

datatype float_processing = FPBool bool | FPBits nat

record options =
  float_processing :: float_processing
  shift_chroma :: bool

text \<open>Python truth value of \<open>self.float_processing\<close>.\<close>

fun truthy :: "float_processing \<Rightarrow> bool" where
  "truthy (FPBool b) = b"
| "truthy (FPBits n) = (n \<noteq> 0)"

text \<open>\<open>bps = 32 if self.float_processing is True else self.float_processing\<close>
  (read only when \<open>float_processing\<close> is true).\<close>

fun bps_of :: "float_processing \<Rightarrow> nat" where
  "bps_of (FPBool b) = (if b then 32 else 0)"
| "bps_of (FPBits n) = n"

definition float_clip :: "conversion \<Rightarrow> options \<Rightarrow> clip \<Rightarrow> clip" where
  "float_clip conv opts c =
     (let fmt = format c in
      if truthy (float_processing opts) then
        (let bps = bps_of (float_processing opts) in
         if sample_type fmt \<noteq> FLOAT \<or> bits_per_sample fmt \<noteq> bps
         then resize conv (fmt\<lparr>sample_type := FLOAT, bits_per_sample := bps\<rparr>) c
         else c)
      else c)"

text \<open>
  \<open>norm_clip\<close>: \<open>float_clip\<close> is its first \<open>if\<close> block; the second block tests
  the format \<open>fmt\<close> that was read before the conversion. The early return for
  a missing clip is left out (every clip is present and has a format, as the
  assertions of the module require).
\<close>

definition norm_clip :: "conversion \<Rightarrow> options \<Rightarrow> clip \<Rightarrow> error + clip" where
  "norm_clip conv opts c =
     (let fmt = format c; c1 = float_clip conv opts c in
      if shift_chroma opts then
        (if sample_type fmt \<noteq> FLOAT \<and> \<not> truthy (float_processing opts)
         then Inl ConfigurationError
         else if num_planes fmt = 3
         then Inr (std_Expr [EmptyExpr, XPlusHalf] c1)
         else Inr c1)
      else Inr c1)"

section \<open>\<open>PyPlugin.__init__\<close>\<close>

text \<open>
  The class attributes of a plugin class, with the values they hold at one
  moment. \<open>input_per_plane\<close> is a boolean or a list object. The list object
  belongs to the class and is shared by its instances, and \<open>__init__\<close> appends
  to it in place: \<open>FlagList l\<close> gives the contents of that object at the moment
  in question, which is the list as declared or as earlier constructions have
  lengthened it.
\<close>

datatype per_plane_decl = OneFlag bool | FlagList "bool list"

record plugin_class =
  options :: options
  decl_input_per_plane :: per_plane_decl
  decl_output_per_plane :: bool
  min_clips :: int
  max_clips :: int

text \<open>
  The instance attributes \<open>__init__\<close> sets (\<open>fd\<close> plays no part in what
  follows and is left out). \<open>priv_input_per_plane\<close> is the contents of the list
  \<open>_input_per_plane\<close> refers to when \<open>__init__\<close> returns; which list object that
  is, and what becomes of it later, is the matter of \<open>construct\<close> below. Later
  constructions only append to it, and \<open>__init__\<close> and \<open>invoke\<close> read no entry
  beyond the first \<open>1 + k\<close>.
\<close>

record session =
  ref_clip :: clip
  clips :: "clip list"
  out_format :: video_format
  priv_input_per_plane :: "bool list"
  output_per_plane :: bool
  is_single_plane :: "bool list"

text \<open>The list comprehension over \<open>clips\<close>: the first failing \<open>norm_clip\<close>
  raises.\<close>

fun norm_clips :: "conversion \<Rightarrow> options \<Rightarrow> clip list \<Rightarrow> error + clip list" where
  "norm_clips conv opts [] = Inr []"
| "norm_clips conv opts (c # cs) =
     (case norm_clip conv opts c of
        Inl e \<Rightarrow> Inl e
      | Inr c' \<Rightarrow>
          (case norm_clips conv opts cs of
             Inl e \<Rightarrow> Inl e
           | Inr cs' \<Rightarrow> Inr (c' # cs')))"

text \<open>
  The loop \<open>for _ in range(d): input_per_plane.append(input_per_plane[-1])\<close>;
  \<open>[-1]\<close> of an empty list raises \<open>IndexError\<close>.
\<close>

fun extend_flags :: "nat \<Rightarrow> bool list \<Rightarrow> error + bool list" where
  "extend_flags 0 xs = Inr xs"
| "extend_flags (Suc d) xs =
     (if xs = [] then Inl IndexError else extend_flags d (xs @ [last xs]))"

definition subsampled :: "video_format \<Rightarrow> bool" where
  "subsampled fmt = (subsampling_w fmt \<noteq> 0 \<or> subsampling_h fmt \<noteq> 0)"

text \<open>
  The loop over \<open>zip(count(-1), (ref_clip, *clips), _input_per_plane)\<close>: it ends
  with the shorter of the two lists.
\<close>

fun check_inputs :: "int \<Rightarrow> clip list \<Rightarrow> bool list \<Rightarrow> error option" where
  "check_inputs idx (c # cs) (ipp # ipps) =
     (if \<not> ipp \<and> subsampled (format c)
      then Some (SubsamplingError (if idx = - 1 then RefClip else ClipIndex idx))
      else check_inputs (idx + 1) cs ipps)"
| "check_inputs idx cs ipps = None"

definition flag_list :: "per_plane_decl \<Rightarrow> bool list" where
  "flag_list d = (case d of OneFlag b \<Rightarrow> [b] | FlagList l \<Rightarrow> l)"

definition count_error :: "plugin_class \<Rightarrow> nat \<Rightarrow> bool" where
  "count_error cls n_clips =
     (int n_clips < min_clips cls \<or> (max_clips cls > 0 \<and> int n_clips > max_clips cls))"

text \<open>
  \<open>init\<close> is \<open>__init__\<close> as a function of the values the class attributes hold
  when it starts: the exception it raises, or the attributes of the instance
  when it returns. The effect on the list object of the class is added by
  \<open>construct\<close> below.
\<close>

definition init :: "conversion \<Rightarrow> plugin_class \<Rightarrow> clip \<Rightarrow> clip list \<Rightarrow> error + session" where
  "init conv cls ref_clip0 clips0 =
     (case norm_clip conv (options cls) ref_clip0 of
        Inl e \<Rightarrow> Inl e
      | Inr rc \<Rightarrow>
     (case norm_clips conv (options cls) clips0 of
        Inl e \<Rightarrow> Inl e
      | Inr cs \<Rightarrow>
     (let n_clips = 1 + length cs;
          ipp0 = flag_list (decl_input_per_plane cls)
      in
      case extend_flags (n_clips - length ipp0) ipp0 of
        Inl e \<Rightarrow> Inl e
      | Inr ipp \<Rightarrow>
     (let opp = (if num_planes (format ref_clip0) = 1 then True
                 else decl_output_per_plane cls);
          isp = map (\<lambda>c. num_planes (format c) = 1) (rc # cs)
      in
      if count_error cls n_clips then Inl StreamCountError
      else if \<not> opp \<and> subsampled (format ref_clip0) then Inl (SubsamplingError Output)
      else
        (case check_inputs (- 1) (rc # cs) ipp of
           Some e \<Rightarrow> Inl e
         | None \<Rightarrow>
             Inr \<lparr>ref_clip = rc, clips = cs, out_format = format ref_clip0,
                  priv_input_per_plane = ipp, output_per_plane = opp,
                  is_single_plane = isp\<rparr>)))))"

text \<open>
  The list object \<open>_input_per_plane\<close> refers to. For a declared boolean
  \<open>__init__\<close> builds a new list, which only this instance has; for a declared
  list it is the list object of the class attribute itself.
\<close>

datatype flags_object = OwnList | ClassList

text \<open>
  \<open>__init__\<close> with its effect on the class: the second component is the class
  afterwards. The appends of lines 151-152 go to the list object of the class
  when a list is declared, and they stay when a later check raises; an
  exception of \<open>norm_clip\<close>, or the \<open>IndexError\<close> of an empty declared list,
  comes before anything is appended.
\<close>

definition construct ::
  "conversion \<Rightarrow> plugin_class \<Rightarrow> clip \<Rightarrow> clip list
     \<Rightarrow> (error + session \<times> flags_object) \<times> plugin_class" where
  "construct conv cls ref_clip0 clips0 =
     (case norm_clip conv (options cls) ref_clip0 of
        Inl e \<Rightarrow> (Inl e, cls)
      | Inr rc \<Rightarrow>
     (case norm_clips conv (options cls) clips0 of
        Inl e \<Rightarrow> (Inl e, cls)
      | Inr cs \<Rightarrow>
     (let n_clips = 1 + length cs;
          obj = (case decl_input_per_plane cls of
                   OneFlag b \<Rightarrow> OwnList
                 | FlagList l \<Rightarrow> ClassList);
          ipp0 = flag_list (decl_input_per_plane cls)
      in
      case extend_flags (n_clips - length ipp0) ipp0 of
        Inl e \<Rightarrow> (Inl e, cls)
      | Inr ipp \<Rightarrow>
     (let cls' = (case obj of
                    OwnList \<Rightarrow> cls
                  | ClassList \<Rightarrow> cls\<lparr>decl_input_per_plane := FlagList ipp\<rparr>);
          opp = (if num_planes (format ref_clip0) = 1 then True
                 else decl_output_per_plane cls);
          isp = map (\<lambda>c. num_planes (format c) = 1) (rc # cs)
      in
      if count_error cls n_clips then (Inl StreamCountError, cls')
      else if \<not> opp \<and> subsampled (format ref_clip0)
      then (Inl (SubsamplingError Output), cls')
      else
        (case check_inputs (- 1) (rc # cs) ipp of
           Some e \<Rightarrow> (Inl e, cls')
         | None \<Rightarrow>
             (Inr (\<lparr>ref_clip = rc, clips = cs, out_format = format ref_clip0,
                    priv_input_per_plane = ipp, output_per_plane = opp,
                    is_single_plane = isp\<rparr>, obj), cls'))))))"

text \<open>
  The contents of the \<open>_input_per_plane\<close> of an instance at a moment when the
  class attributes are \<open>cls\<close>: its own list as \<open>__init__\<close> left it, or the
  list object of the class as it is then.
\<close>

definition vector_now :: "plugin_class \<Rightarrow> session \<times> flags_object \<Rightarrow> bool list" where
  "vector_now cls so =
     (case snd so of
        OwnList \<Rightarrow> priv_input_per_plane (fst so)
      | ClassList \<Rightarrow> flag_list (decl_input_per_plane cls))"

section \<open>Frame requests\<close>

text \<open>
  The coroutine helpers \<open>get_frame\<close>, \<open>get_frames\<close> and \<open>frame_eval_async\<close>
  belong to \<open>vspyplugin/coroutines.py\<close>, which \<open>base.py\<close> imports.
\<close>

text \<open>Modelled from the spec: \<open>get_frame\<close> of \<open>vspyplugin/coroutines.py\<close>.
  \<open>fetchOne(stream, index)\<close> delivers the frame of that stream at that index and
  propagates the host's failure if the index is out of range or decoding fails.\<close>

definition get_frame :: "clip \<Rightarrow> nat \<Rightarrow> error + frame" where
  "get_frame c n = (if n < num_frames c then frame_at c n else Inl FetchError)"

text \<open>Modelled from the spec: \<open>get_frames\<close> of \<open>vspyplugin/coroutines.py\<close>.
  \<open>fetchMany(streams, index)\<close> delivers the frames of all streams for the same
  index in stream order, and fails as a whole, with the underlying error, if
  any single fetch fails.\<close>

fun get_frames :: "clip list \<Rightarrow> nat \<Rightarrow> error + frame list" where
  "get_frames [] n = Inr []"
| "get_frames (c # cs) n =
     (case get_frame c n of
        Inl e \<Rightarrow> Inl e
      | Inr f \<Rightarrow>
          (case get_frames cs n of
             Inl e \<Rightarrow> Inl e
           | Inr fs \<Rightarrow> Inr (f # fs)))"

text \<open>Modelled from the spec: \<open>frame_eval_async\<close> of \<open>vspyplugin/coroutines.py\<close>.
  The engine registers \<open>evaluateFrame(index)\<close> with the host, which calls it
  once per needed index of the reference clip; the frame of the resulting clip
  at an index is what the callback returns there.\<close>

definition frame_eval_async :: "clip \<Rightarrow> (nat \<Rightarrow> error + 'a) \<Rightarrow> (nat \<Rightarrow> error + 'a)" where
  "frame_eval_async c f = (\<lambda>n. if n < num_frames c then f n else Inl FetchError)"

section \<open>\<open>PyPlugin.invoke\<close>\<close>

text \<open>
  What the user function \<open>process(f, src, dst, plane, n)\<close> is handed. A source
  is a channel-plane (\<open>frame[p]\<close>), the list of planes \<open>_stack_frame\<close> builds, a
  whole frame, or a list with one entry per stream. The destination is a view
  of the output frame \<open>fout\<close>: one of its planes (\<open>fout[p]\<close>) or the frame
  itself. The function mutates the output frame in place; in the model it maps
  the contents of \<open>fout\<close> before the call to its contents after. An exception
  escaping the user function is not modelled.
\<close>

datatype view = Plane plane | Stack "plane list"

datatype src = One view | Whole frame | Many "view list"

datatype dst = DstPlane nat | DstFrame

type_synonym process = "frame \<Rightarrow> src \<Rightarrow> dst \<Rightarrow> nat option \<Rightarrow> nat \<Rightarrow> frame"

text \<open>The observable steps of evaluating one frame index, in order.\<close>

datatype event =
    FetchOne nat
  | FetchMany nat nat
  | StackFrame nat
  | Process src dst "nat option" nat

text \<open>\<open>[frame[p] for p in ps]\<close>.\<close>

fun planes_of :: "frame \<Rightarrow> nat list \<Rightarrow> error + plane list" where
  "planes_of f [] = Inr []"
| "planes_of f (p # ps) =
     (case getitem f p of
        Inl e \<Rightarrow> Inl e
      | Inr pl \<Rightarrow>
          (case planes_of f ps of
             Inl e \<Rightarrow> Inl e
           | Inr pls \<Rightarrow> Inr (pl # pls)))"

text \<open>
  \<open>_stack_frame\<close>. The set display \<open>{0, 1, 2}\<close> is iterated as \<open>0, 1, 2\<close>, the
  order CPython gives a set of these three small integers.
\<close>

definition stack_frame :: "bool list \<Rightarrow> frame \<Rightarrow> nat \<Rightarrow> error + view" where
  "stack_frame isp f idx =
     (case getitem isp idx of
        Inl e \<Rightarrow> Inl e
      | Inr single \<Rightarrow>
          if single then map_sum id Plane (getitem f 0)
          else map_sum id Stack (planes_of f [0, 1, 2]))"

text \<open>
  The dictionary \<open>pre_stacked_clips\<close>, as the list of its items in insertion
  order; every item is one call of \<open>_stack_frame\<close>.
\<close>

fun pre_stack :: "bool list \<Rightarrow> bool list \<Rightarrow> nat \<Rightarrow> frame list \<Rightarrow> error + (nat \<times> view) list" where
  "pre_stack ipp isp idx [] = Inr []"
| "pre_stack ipp isp idx (f # fs) =
     (case getitem ipp idx of
        Inl e \<Rightarrow> Inl e
      | Inr flag \<Rightarrow>
          if flag then pre_stack ipp isp (Suc idx) fs
          else
            (case stack_frame isp f idx of
               Inl e \<Rightarrow> Inl e
             | Inr v \<Rightarrow>
                 (case pre_stack ipp isp (Suc idx) fs of
                    Inl e \<Rightarrow> Inl e
                  | Inr m \<Rightarrow> Inr ((idx, v) # m))))"

text \<open>The list \<open>inputs_data\<close> for plane \<open>p\<close>.\<close>

fun inputs_data :: "bool list \<Rightarrow> (nat \<times> view) list \<Rightarrow> nat \<Rightarrow> nat \<Rightarrow> frame list \<Rightarrow> error + view list" where
  "inputs_data ipp pre p idx [] = Inr []"
| "inputs_data ipp pre p idx (f # fs) =
     (case getitem ipp idx of
        Inl e \<Rightarrow> Inl e
      | Inr flag \<Rightarrow>
          (case (if flag then map_sum id Plane (getitem f p)
                 else (case map_of pre idx of None \<Rightarrow> Inl KeyError | Some v \<Rightarrow> Inr v)) of
             Inl e \<Rightarrow> Inl e
           | Inr v \<Rightarrow>
               (case inputs_data ipp pre p (Suc idx) fs of
                  Inl e \<Rightarrow> Inl e
                | Inr vs \<Rightarrow> Inr (v # vs))))"

text \<open>\<open>[_stack_frame(frame, idx) for idx, frame in enumerate(frames)]\<close>.\<close>

fun src_arrays :: "bool list \<Rightarrow> nat \<Rightarrow> frame list \<Rightarrow> error + view list" where
  "src_arrays isp idx [] = Inr []"
| "src_arrays isp idx (f # fs) =
     (case stack_frame isp f idx of
        Inl e \<Rightarrow> Inl e
      | Inr v \<Rightarrow>
          (case src_arrays isp (Suc idx) fs of
             Inl e \<Rightarrow> Inl e
           | Inr vs \<Rightarrow> Inr (v # vs)))"

text \<open>
  The loop \<open>for p in range(fout.format.num_planes)\<close> of the three per-plane
  closures; \<open>mk p\<close> is the source argument each of them builds for plane \<open>p\<close>.
  The state is the output frame and the steps taken so far. The planes of a
  frame are as many as its format says, so \<open>p\<close> runs over the planes of
  \<open>fout\<close> and \<open>fout[p]\<close> does not raise.
\<close>

fun plane_loop ::
  "process \<Rightarrow> (nat \<Rightarrow> error + src) \<Rightarrow> nat \<Rightarrow> nat list \<Rightarrow> frame \<times> event list
     \<Rightarrow> error + frame \<times> event list" where
  "plane_loop proc mk n [] st = Inr st"
| "plane_loop proc mk n (p # ps) (fout, tr) =
     (case mk p of
        Inl e \<Rightarrow> Inl e
      | Inr s \<Rightarrow>
          plane_loop proc mk n ps
            (proc fout s (DstPlane p) (Some p) n, tr @ [Process s (DstPlane p) (Some p) n]))"

text \<open>The six closures \<open>output\<close>, in the order of the source.\<close>

definition output_planes_clips :: "process \<Rightarrow> session \<Rightarrow> nat \<Rightarrow> error + frame \<times> event list" where
  "output_planes_clips proc s n =
     (case get_frames (ref_clip s # clips s) n of
        Inl e \<Rightarrow> Inl e
      | Inr frames \<Rightarrow>
     (case getitem frames 0 of
        Inl e \<Rightarrow> Inl e
      | Inr fout \<Rightarrow>
     (case pre_stack (priv_input_per_plane s) (is_single_plane s) 0 frames of
        Inl e \<Rightarrow> Inl e
      | Inr pre \<Rightarrow>
          plane_loop proc
            (\<lambda>p. map_sum id Many (inputs_data (priv_input_per_plane s) pre p 0 frames))
            n [0..<length fout]
            (fout, FetchMany (length (ref_clip s # clips s)) n # map (\<lambda>kv. StackFrame (fst kv)) pre))))"

definition output_planes_ref :: "process \<Rightarrow> session \<Rightarrow> nat \<Rightarrow> error + frame \<times> event list" where
  "output_planes_ref proc s n =
     (case get_frame (ref_clip s) n of
        Inl e \<Rightarrow> Inl e
      | Inr frame \<Rightarrow>
          plane_loop proc (\<lambda>p. map_sum id (\<lambda>pl. One (Plane pl)) (getitem frame p))
            n [0..<length frame] (frame, [FetchOne n]))"

definition output_planes_stacked :: "process \<Rightarrow> session \<Rightarrow> nat \<Rightarrow> error + frame \<times> event list" where
  "output_planes_stacked proc s n =
     (case get_frame (ref_clip s) n of
        Inl e \<Rightarrow> Inl e
      | Inr ref_frame \<Rightarrow>
     (case stack_frame (is_single_plane s) ref_frame 0 of
        Inl e \<Rightarrow> Inl e
      | Inr pre_stacked_clip \<Rightarrow>
          plane_loop proc (\<lambda>p. Inr (One pre_stacked_clip))
            n [0..<length ref_frame] (ref_frame, [FetchOne n, StackFrame 0])))"

definition output_merged_clips :: "process \<Rightarrow> session \<Rightarrow> nat \<Rightarrow> error + frame \<times> event list" where
  "output_merged_clips proc s n =
     (case get_frames (ref_clip s # clips s) n of
        Inl e \<Rightarrow> Inl e
      | Inr frames \<Rightarrow>
     (case getitem frames 0 of
        Inl e \<Rightarrow> Inl e
      | Inr fout \<Rightarrow>
     (case src_arrays (is_single_plane s) 0 frames of
        Inl e \<Rightarrow> Inl e
      | Inr arrays \<Rightarrow>
          Inr (proc fout (Many arrays) DstFrame None n,
               FetchMany (length (ref_clip s # clips s)) n
                 # map StackFrame [0..<length frames]
                 @ [Process (Many arrays) DstFrame None n]))))"

definition output_merged_single :: "process \<Rightarrow> session \<Rightarrow> nat \<Rightarrow> error + frame \<times> event list" where
  "output_merged_single proc s n =
     (case get_frame (ref_clip s) n of
        Inl e \<Rightarrow> Inl e
      | Inr frame \<Rightarrow>
     (case getitem frame 0 of
        Inl e \<Rightarrow> Inl e
      | Inr pl \<Rightarrow>
          Inr (proc frame (One (Plane pl)) (DstPlane 0) (Some 0) n,
               [FetchOne n, Process (One (Plane pl)) (DstPlane 0) (Some 0) n])))"

definition output_merged_frame :: "process \<Rightarrow> session \<Rightarrow> nat \<Rightarrow> error + frame \<times> event list" where
  "output_merged_frame proc s n =
     (case get_frame (ref_clip s) n of
        Inl e \<Rightarrow> Inl e
      | Inr frame \<Rightarrow>
          Inr (proc frame (Whole frame) DstFrame None n,
               [FetchOne n, Process (Whole frame) DstFrame None n]))"

text \<open>The nested conditionals of \<open>invoke\<close> that pick the closure.\<close>

datatype strategy =
    PlanesClips | PlanesRef | PlanesStacked | MergedClips | MergedSingle | MergedFrame

definition select_strategy :: "session \<Rightarrow> error + strategy" where
  "select_strategy s =
     (if output_per_plane s then
        (if clips s \<noteq> [] then Inr PlanesClips
         else
           (case getitem (priv_input_per_plane s) 0 of
              Inl e \<Rightarrow> Inl e
            | Inr flag \<Rightarrow> Inr (if flag then PlanesRef else PlanesStacked)))
      else
        (if clips s \<noteq> [] then Inr MergedClips
         else if num_planes (format (ref_clip s)) = 1 then Inr MergedSingle
         else Inr MergedFrame))"

fun run_strategy :: "strategy \<Rightarrow> process \<Rightarrow> session \<Rightarrow> nat \<Rightarrow> error + frame \<times> event list" where
  "run_strategy PlanesClips = output_planes_clips"
| "run_strategy PlanesRef = output_planes_ref"
| "run_strategy PlanesStacked = output_planes_stacked"
| "run_strategy MergedClips = output_merged_clips"
| "run_strategy MergedSingle = output_merged_single"
| "run_strategy MergedFrame = output_merged_frame"

text \<open>
  The closure \<open>output\<close> that \<open>invoke\<close> picked, registered through
  \<open>frame_eval_async(self.ref_clip)\<close>.
\<close>

definition output_closure :: "process \<Rightarrow> session \<Rightarrow> error + (nat \<Rightarrow> error + frame \<times> event list)" where
  "output_closure proc s =
     (case select_strategy s of
        Inl e \<Rightarrow> Inl e
      | Inr st \<Rightarrow> Inr (frame_eval_async (ref_clip s) (run_strategy st proc s)))"

text \<open>\<open>PyPluginOptions.ensure_output\<close>, applied by the decorator to the clip
  \<open>invoke\<close> returns.\<close>

definition ensure_output :: "conversion \<Rightarrow> session \<Rightarrow> clip \<Rightarrow> clip" where
  "ensure_output conv s c =
     (if out_format s \<noteq> format (ref_clip s) then resize conv (out_format s) c else c)"

definition invoke :: "conversion \<Rightarrow> process \<Rightarrow> session \<Rightarrow> error + clip" where
  "invoke conv proc s =
     (case output_closure proc s of
        Inl e \<Rightarrow> Inl e
      | Inr f \<Rightarrow>
          Inr (ensure_output conv s
                 \<lparr>format = format (ref_clip s), num_frames = num_frames (ref_clip s),
                  frame_at = (\<lambda>n. map_sum id fst (f n))\<rparr>))"

section \<open>Auxiliary notions for the statements\<close>

text \<open>\<open>norm_clip\<close> does not raise: the negation of the test before its
  \<open>raise ValueError\<close>.\<close>

definition norm_ok :: "options \<Rightarrow> clip \<Rightarrow> bool" where
  "norm_ok opts c =
     (shift_chroma opts \<longrightarrow> sample_type (format c) = FLOAT \<or> truthy (float_processing opts))"

text \<open>The clip \<open>norm_clip\<close> returns when it does not raise.\<close>

definition normed :: "conversion \<Rightarrow> options \<Rightarrow> clip \<Rightarrow> clip" where
  "normed conv opts c =
     (if shift_chroma opts \<and> num_planes (format c) = 3
      then std_Expr [EmptyExpr, XPlusHalf] (float_clip conv opts c)
      else float_clip conv opts c)"

text \<open>No stream that is presented stacked is chroma-subsampled: the loop at the
  end of \<open>__init__\<close> raises for no pair of the \<open>zip\<close>.\<close>

definition inputs_ok :: "clip list \<Rightarrow> bool list \<Rightarrow> bool" where
  "inputs_ok cs flags = list_all (\<lambda>(c, ipp). ipp \<or> \<not> subsampled (format c)) (zip cs flags)"

text \<open>The declared flags, extended to \<open>k\<close> entries by repeating the last one.\<close>

definition flags_of :: "plugin_class \<Rightarrow> nat \<Rightarrow> bool list" where
  "flags_of cls k =
     (let l = flag_list (decl_input_per_plane cls) in l @ replicate (k - length l) (last l))"

text \<open>The attributes \<open>__init__\<close> leaves behind when nothing raises.\<close>

definition built :: "conversion \<Rightarrow> plugin_class \<Rightarrow> clip \<Rightarrow> clip list \<Rightarrow> session" where
  "built conv cls r cs =
     \<lparr>ref_clip = normed conv (options cls) r,
      clips = map (normed conv (options cls)) cs,
      out_format = format r,
      priv_input_per_plane = flags_of cls (1 + length cs),
      output_per_plane = (num_planes (format r) = 1 \<or> decl_output_per_plane cls),
      is_single_plane = map (\<lambda>c. num_planes (format c) = 1) (r # cs)\<rparr>"

text \<open>The class attributes \<open>PyPlugin\<close> itself declares.\<close>

definition default_class :: plugin_class where
  "default_class =
     \<lparr>options = \<lparr>float_processing = FPBool False, shift_chroma = False\<rparr>,
      decl_input_per_plane = OneFlag True, decl_output_per_plane = True,
      min_clips = 1, max_clips = - 1\<rparr>"

text \<open>What \<open>_stack_frame\<close> returns for a frame with one or three planes when the
  single-plane entry of its stream agrees with the frame.\<close>

definition stacked_view :: "frame \<Rightarrow> view" where
  "stacked_view f = (if length f = 1 then Plane (f ! 0) else Stack f)"

text \<open>
  The frames delivered for one index fit the session: there is a flag and a
  single-plane entry for every frame, every frame has one or three planes, and
  the single-plane entry of a stream says whether its frame has one plane.
\<close>

definition frames_ok :: "session \<Rightarrow> frame list \<Rightarrow> bool" where
  "frames_ok s frames =
     (length (is_single_plane s) = length frames
      \<and> length frames \<le> length (priv_input_per_plane s)
      \<and> (\<forall>idx < length frames.
            (length (frames ! idx) = 1 \<or> length (frames ! idx) = 3)
            \<and> is_single_plane s ! idx = (length (frames ! idx) = 1)))"

text \<open>Every stream presented per plane has at least as many planes as the
  reference frame.\<close>

definition planes_ok :: "session \<Rightarrow> frame list \<Rightarrow> bool" where
  "planes_ok s frames =
     (\<forall>idx < length frames.
        priv_input_per_plane s ! idx \<longrightarrow> length (frames ! 0) \<le> length (frames ! idx))"

text \<open>A host clip is well formed: its format has one or three planes, and every
  frame it delivers has as many planes as the format says.\<close>

definition clip_ok :: "clip \<Rightarrow> bool" where
  "clip_ok c =
     ((num_planes (format c) = 1 \<or> num_planes (format c) = 3)
      \<and> (\<forall>n f. frame_at c n = Inr f \<longrightarrow> length f = num_planes (format c)))"

text \<open>
  A user function that copies its input to its output: the data of the
  reference stream (the first entry when the source is a list) is written to
  the destination, plane for plane.
\<close>

fun copy_view :: "view \<Rightarrow> dst \<Rightarrow> frame \<Rightarrow> frame" where
  "copy_view (Plane pl) (DstPlane p) fout = fout[p := pl]"
| "copy_view (Stack pls) (DstPlane p) fout = (if p < length pls then fout[p := pls ! p] else fout)"
| "copy_view (Plane pl) DstFrame fout = [pl]"
| "copy_view (Stack pls) DstFrame fout = pls"

fun copy_process :: process where
  "copy_process fout (One v) d plane n = copy_view v d fout"
| "copy_process fout (Whole f) (DstPlane p) plane n =
     (if p < length f then fout[p := f ! p] else fout)"
| "copy_process fout (Whole f) DstFrame plane n = f"
| "copy_process fout (Many []) d plane n = fout"
| "copy_process fout (Many (v # vs)) d plane n = copy_view v d fout"

text \<open>
  A user function that writes twice the samples of the first input plane to
  the output plane it is handed, and does nothing when it is handed anything
  else.
\<close>

fun double_process :: process where
  "double_process fout (Many (Plane pl # vs)) (DstPlane p) plane n =
     fout[p := map (\<lambda>x. 2 * x) pl]"
| "double_process fout sr d plane n = fout"

subsection \<open>Concrete inputs\<close>

text \<open>
  Host formats (GRAY8, YUV420P8, YUV444P8, GRAYS, YUV444PS), a clip that
  delivers the same frame at every index, a sample conversion, three clips of
  ten frames, and plugin classes that differ from the defaults in one
  attribute. The three sessions are what \<open>__init__\<close> constructs from them.
\<close>

definition gray8 :: video_format where
  "gray8 = \<lparr>sample_type = INTEGER, bits_per_sample = 8, subsampling_w = 0,
            subsampling_h = 0, num_planes = 1\<rparr>"

definition yuv420p8 :: video_format where
  "yuv420p8 = \<lparr>sample_type = INTEGER, bits_per_sample = 8, subsampling_w = 1,
               subsampling_h = 1, num_planes = 3\<rparr>"

definition yuv444p8 :: video_format where
  "yuv444p8 = \<lparr>sample_type = INTEGER, bits_per_sample = 8, subsampling_w = 0,
               subsampling_h = 0, num_planes = 3\<rparr>"

definition grays :: video_format where
  "grays = \<lparr>sample_type = FLOAT, bits_per_sample = 32, subsampling_w = 0,
            subsampling_h = 0, num_planes = 1\<rparr>"

definition yuv444ps :: video_format where
  "yuv444ps = \<lparr>sample_type = FLOAT, bits_per_sample = 32, subsampling_w = 0,
               subsampling_h = 0, num_planes = 3\<rparr>"

definition still :: "video_format \<Rightarrow> nat \<Rightarrow> frame \<Rightarrow> clip" where
  "still fmt k f = \<lparr>format = fmt, num_frames = k, frame_at = (\<lambda>n. Inr f)\<rparr>"

definition scale_conv :: conversion where
  "scale_conv a b p x = x / 255"

definition yuv_ref :: clip where
  "yuv_ref = still yuv444p8 10 [[1], [2], [3]]"

definition gray_aux :: clip where
  "gray_aux = still gray8 10 [[4]]"

definition yuv_aux :: clip where
  "yuv_aux = still yuv444p8 10 [[5], [6], [7]]"

definition shift_opts :: options where
  "shift_opts = \<lparr>float_processing = FPBool False, shift_chroma = True\<rparr>"

definition two_flag_class :: plugin_class where
  "two_flag_class = default_class\<lparr>decl_input_per_plane := FlagList [True, False]\<rparr>"

definition long_flag_class :: plugin_class where
  "long_flag_class = default_class\<lparr>decl_input_per_plane := FlagList [True, True]\<rparr>"

definition merged_class :: plugin_class where
  "merged_class = default_class\<lparr>decl_output_per_plane := False\<rparr>"

definition bounded_class :: plugin_class where
  "bounded_class = default_class\<lparr>min_clips := 2, max_clips := 2\<rparr>"

definition shift_class :: plugin_class where
  "shift_class =
     default_class\<lparr>options := \<lparr>float_processing = FPBits 32, shift_chroma = True\<rparr>\<rparr>"

definition float_class :: plugin_class where
  "float_class =
     default_class\<lparr>options := \<lparr>float_processing = FPBits 32, shift_chroma = False\<rparr>\<rparr>"

definition scenario_b_class :: plugin_class where
  "scenario_b_class = default_class\<lparr>decl_input_per_plane := FlagList [True, False, False]\<rparr>"

definition scenario_b_session :: session where
  "scenario_b_session = projr (init scale_conv scenario_b_class yuv_ref [gray_aux, yuv_aux])"

definition merged_session :: session where
  "merged_session = projr (init scale_conv merged_class yuv_ref [yuv_aux])"

definition mixed_session :: session where
  "mixed_session = projr (init scale_conv default_class yuv_ref [gray_aux])"

definition grown_class :: plugin_class where
  "grown_class = snd (construct scale_conv two_flag_class yuv_ref [gray_aux, yuv_aux, yuv_aux])"

definition shift_only_class :: plugin_class where
  "shift_only_class = default_class\<lparr>options := shift_opts\<rparr>"

definition float_ref :: clip where
  "float_ref = still yuv444ps 10 [[1 / 4], [0], [- 1 / 4]]"

definition shifted_session :: session where
  "shifted_session = projr (init scale_conv shift_only_class float_ref [])"

section \<open>Properties of \<open>norm_clip\<close> and \<open>__init__\<close>\<close>

lemma norm_clip_eq:
  "norm_clip conv opts c = (if norm_ok opts c then Inr (normed conv opts c) else Inl ConfigurationError)"
  by (auto simp: norm_clip_def norm_ok_def normed_def Let_def)

lemma norm_clips_eq:
  "norm_clips conv opts cs =
     (if list_all (norm_ok opts) cs then Inr (map (normed conv opts) cs) else Inl ConfigurationError)"
  by (induction cs) (simp_all add: norm_clip_eq)

lemma format_float_clip:
  "num_planes (format (float_clip conv opts c)) = num_planes (format c)"
  "subsampling_w (format (float_clip conv opts c)) = subsampling_w (format c)"
  "subsampling_h (format (float_clip conv opts c)) = subsampling_h (format c)"
  "num_frames (float_clip conv opts c) = num_frames c"
  by (simp_all add: float_clip_def resize_def Let_def)

lemma format_normed:
  "num_planes (format (normed conv opts c)) = num_planes (format c)"
  "subsampled (format (normed conv opts c)) = subsampled (format c)"
  "num_frames (normed conv opts c) = num_frames c"
  by (simp_all add: normed_def std_Expr_def format_float_clip subsampled_def)

lemma extend_flags_eq:
  "extend_flags d xs =
     (if xs = [] \<and> 0 < d then Inl IndexError else Inr (xs @ replicate d (last xs)))"
proof (induction d arbitrary: xs)
  case 0
  show ?case by simp
next
  case (Suc d)
  show ?case by (simp add: Suc replicate_app_Cons_same)
qed

lemma check_inputs_None:
  "(check_inputs idx cs flags = None) = inputs_ok cs flags"
  by (induction idx cs flags rule: check_inputs.induct) (simp_all add: inputs_ok_def)

lemma check_inputs_Some:
  "check_inputs idx cs flags = Some e \<Longrightarrow> \<exists>w. e = SubsamplingError w"
  by (induction idx cs flags rule: check_inputs.induct) (auto split: if_splits)

lemma inputs_ok_normed:
  "inputs_ok (map (normed conv opts) cs) flags = inputs_ok cs flags"
proof (induction cs arbitrary: flags)
  case Nil
  show ?case by (simp add: inputs_ok_def)
next
  case (Cons c cs)
  then show ?case by (cases flags) (simp_all add: inputs_ok_def format_normed)
qed

lemma init_eq:
  "init conv cls r cs =
     (if \<not> list_all (norm_ok (options cls)) (r # cs) then Inl ConfigurationError
      else if flag_list (decl_input_per_plane cls) = [] then Inl IndexError
      else if count_error cls (1 + length cs) then Inl StreamCountError
      else if \<not> (num_planes (format r) = 1 \<or> decl_output_per_plane cls) \<and> subsampled (format r)
      then Inl (SubsamplingError Output)
      else
        (case check_inputs (- 1) (map (normed conv (options cls)) (r # cs))
                (flags_of cls (1 + length cs)) of
           Some e \<Rightarrow> Inl e
         | None \<Rightarrow> Inr (built conv cls r cs)))"
  by (auto simp: init_def norm_clip_eq norm_clips_eq extend_flags_eq Let_def flags_of_def
        built_def format_normed split: option.splits)

lemma init_Inr:
  assumes "init conv cls r cs = Inr s"
  shows "s = built conv cls r cs"
    and "list_all (norm_ok (options cls)) (r # cs)"
    and "flag_list (decl_input_per_plane cls) \<noteq> []"
    and "\<not> count_error cls (1 + length cs)"
    and "num_planes (format r) = 1 \<or> decl_output_per_plane cls \<or> \<not> subsampled (format r)"
    and "inputs_ok (r # cs) (flags_of cls (1 + length cs))"
proof -
  note a = assms [unfolded init_eq]
  show "list_all (norm_ok (options cls)) (r # cs)" using a by (auto split: if_splits)
  show "flag_list (decl_input_per_plane cls) \<noteq> []" using a by (auto split: if_splits)
  show "\<not> count_error cls (1 + length cs)" using a by (auto split: if_splits)
  show "num_planes (format r) = 1 \<or> decl_output_per_plane cls \<or> \<not> subsampled (format r)"
    using a by (auto split: if_splits)
  have "check_inputs (- 1) (map (normed conv (options cls)) (r # cs))
          (flags_of cls (1 + length cs)) = None \<and> s = built conv cls r cs"
    using a by (auto split: if_splits option.splits)
  then show "s = built conv cls r cs"
    and "inputs_ok (r # cs) (flags_of cls (1 + length cs))"
    by (simp_all only: check_inputs_None inputs_ok_normed)
qed

lemma init_success:
  assumes "list_all (norm_ok (options cls)) (r # cs)"
    and "flag_list (decl_input_per_plane cls) \<noteq> []"
    and "\<not> count_error cls (1 + length cs)"
    and "num_planes (format r) = 1 \<or> decl_output_per_plane cls \<or> \<not> subsampled (format r)"
    and "inputs_ok (r # cs) (flags_of cls (1 + length cs))"
  shows "init conv cls r cs = Inr (built conv cls r cs)"
proof -
  have "check_inputs (- 1) (map (normed conv (options cls)) (r # cs))
          (flags_of cls (1 + length cs)) = None"
    using assms(5) by (simp only: check_inputs_None inputs_ok_normed)
  then show ?thesis using assms(1-4) by (auto simp: init_eq)
qed

lemma length_flags_of:
  "length (flags_of cls k) = max (length (flag_list (decl_input_per_plane cls))) k"
  by (simp add: flags_of_def Let_def)

lemma select_strategy_built:
  "select_strategy (built conv cls r cs) = Inr MergedSingle \<Longrightarrow> False"
  by (auto simp: select_strategy_def built_def format_normed split: if_splits sum.splits)

lemmas init_ev = init_eq default_class_def norm_ok_def flag_list_def count_error_def
  still_def yuv444p8_def yuv420p8_def gray8_def subsampled_def flags_of_def normed_def
  float_clip_def built_def inputs_ok_def

lemma map_planes_three:
  "map_planes g [y, u, v] = [map (g 0) y, map (g 1) u, map (g 2) v]"
  by (simp add: map_planes_def numeral_2_eq_2)

lemma eval_expr_fun:
  "eval_expr EmptyExpr = (\<lambda>x. x)"
  "eval_expr XPlusHalf = (\<lambda>x. x + 1 / 2)"
  by (rule ext, simp)+

lemma map_planes_one: "map_planes g [y] = [map (g 0) y]"
  by (simp add: map_planes_def)

lemma shift_three:
  "map_planes (\<lambda>p. eval_expr (expr_for [EmptyExpr, XPlusHalf] p)) [y, u, v]
     = [y, map (\<lambda>x. x + 1 / 2) u, map (\<lambda>x. x + 1 / 2) v]"
  by (simp add: map_planes_three expr_for_def eval_expr_fun)

lemma frame_at_std_Expr:
  "frame_at c n = Inr f \<Longrightarrow> frame_at (std_Expr es c) n
     = Inr (map_planes (\<lambda>p. eval_expr (expr_for es p)) f)"
  by (simp add: std_Expr_def)

lemma format_std_Expr: "format (std_Expr es c) = format c"
  by (simp add: std_Expr_def)

lemma inputs_ok_all_True: "inputs_ok cs (replicate k True)"
  by (auto simp: inputs_ok_def list_all_iff dest: set_zip_rightD)

lemma flags_of_default:
  "decl_input_per_plane cls = OneFlag True \<Longrightarrow> flags_of cls (Suc k) = replicate (Suc k) True"
  by (simp add: flags_of_def flag_list_def replicate_Suc [symmetric] del: replicate_Suc)

lemma construct_value:
  "map_sum id fst (fst (construct conv cls r cs)) = init conv cls r cs"
  by (simp add: construct_def init_def Let_def split: sum.splits option.splits)

lemma construct_eq:
  "construct conv cls r cs =
     (map_sum id (\<lambda>s. (s, case decl_input_per_plane cls of
                             OneFlag b \<Rightarrow> OwnList | FlagList l \<Rightarrow> ClassList))
        (init conv cls r cs),
      if list_all (norm_ok (options cls)) (r # cs)
           \<and> flag_list (decl_input_per_plane cls) \<noteq> []
      then (case decl_input_per_plane cls of
              OneFlag b \<Rightarrow> cls
            | FlagList l \<Rightarrow> cls\<lparr>decl_input_per_plane := FlagList (flags_of cls (1 + length cs))\<rparr>)
      else cls)"
  by (auto simp: construct_def init_def Let_def norm_clip_eq norm_clips_eq extend_flags_eq
      flags_of_def flag_list_def
      split: sum.splits option.splits per_plane_decl.splits flags_object.splits)

lemmas clip_ev = yuv_ref_def gray_aux_def yuv_aux_def

section \<open>Properties of the frame evaluation\<close>

lemma plane_loop_eq:
  assumes "\<forall>p \<in> set ps. mk p = Inr (sr p)"
  shows "plane_loop proc mk n ps (fout, tr)
    = Inr (foldl (\<lambda>fo p. proc fo (sr p) (DstPlane p) (Some p) n) fout ps,
           tr @ map (\<lambda>p. Process (sr p) (DstPlane p) (Some p) n) ps)"
  using assms by (induction ps arbitrary: fout tr) simp_all

lemma get_frame_Inr: "get_frame c n = Inr f \<Longrightarrow> n < num_frames c \<and> frame_at c n = Inr f"
  by (simp add: get_frame_def split: if_splits)

lemma output_closure_eq:
  "select_strategy s = Inr st \<Longrightarrow> n < num_frames (ref_clip s) \<Longrightarrow>
     \<exists>g. output_closure proc s = Inr g \<and> g n = run_strategy st proc s n"
  by (simp add: output_closure_def frame_eval_async_def)

lemma scenario_b_built:
  "init scale_conv scenario_b_class yuv_ref [gray_aux, yuv_aux]
     = Inr (built scale_conv scenario_b_class yuv_ref [gray_aux, yuv_aux])"
  by (simp add: scenario_b_class_def yuv_ref_def gray_aux_def yuv_aux_def init_ev)

lemma get_frames_Cons:
  "get_frames (c # cs) n = Inr (f0 # fs) \<Longrightarrow> get_frame c n = Inr f0 \<and> get_frames cs n = Inr fs"
  by (simp split: sum.splits)

lemma get_frames_length: "get_frames cs n = Inr fs \<Longrightarrow> length fs = length cs"
  by (induction cs arbitrary: fs) (auto split: sum.splits)

lemma src_arrays_nth:
  "src_arrays isp k fs = Inr arrays \<Longrightarrow>
     length arrays = length fs
     \<and> (\<forall>i < length fs. stack_frame isp (fs ! i) (k + i) = Inr (arrays ! i))"
proof (induction fs arbitrary: k arrays)
  case Nil
  then show ?case by simp
next
  case (Cons f fs)
  from Cons.prems obtain v vs where v: "stack_frame isp f k = Inr v"
    and vs: "src_arrays isp (Suc k) fs = Inr vs" and a: "arrays = v # vs"
    by (auto split: sum.splits)
  from Cons.IH [OF vs] have l: "length vs = length fs"
    and nth: "\<forall>i < length fs. stack_frame isp (fs ! i) (Suc k + i) = Inr (vs ! i)"
    by simp_all
  show ?case
  proof (intro conjI allI impI)
    show "length arrays = length (f # fs)" using a l by simp
  next
    fix i assume "i < length (f # fs)"
    then show "stack_frame isp ((f # fs) ! i) (k + i) = Inr (arrays ! i)"
      using v nth a by (cases i) simp_all
  qed
qed

lemma merged_session_init:
  "init scale_conv merged_class yuv_ref [yuv_aux]
     = Inr (built scale_conv merged_class yuv_ref [yuv_aux])"
  by (simp add: merged_class_def yuv_ref_def yuv_aux_def init_ev)

lemma merged_session_eq:
  "merged_session
     = \<lparr>ref_clip = yuv_ref, clips = [yuv_aux], out_format = yuv444p8,
        priv_input_per_plane = [True, True], output_per_plane = False,
        is_single_plane = [False, False]\<rparr>"
proof -
  have opts: "options merged_class = \<lparr>float_processing = FPBool False, shift_chroma = False\<rparr>"
    by (simp add: merged_class_def default_class_def)
  have nm: "normed scale_conv (options merged_class) c = c" for c
    by (simp add: opts normed_def float_clip_def)
  have "merged_session = built scale_conv merged_class yuv_ref [yuv_aux]"
    by (simp add: merged_session_def merged_session_init)
  also have "\<dots> = \<lparr>ref_clip = yuv_ref, clips = [yuv_aux], out_format = format yuv_ref,
        priv_input_per_plane = flags_of merged_class (Suc (Suc 0)),
        output_per_plane = (num_planes (format yuv_ref) = 1 \<or> decl_output_per_plane merged_class),
        is_single_plane = [num_planes (format yuv_ref) = 1, num_planes (format yuv_aux) = 1]\<rparr>"
    by (simp add: built_def nm)
  also have "\<dots> = \<lparr>ref_clip = yuv_ref, clips = [yuv_aux], out_format = yuv444p8,
        priv_input_per_plane = [True, True], output_per_plane = False,
        is_single_plane = [False, False]\<rparr>"
    by (simp add: flags_of_def flag_list_def merged_class_def default_class_def
        yuv_ref_def yuv_aux_def still_def yuv444p8_def)
  finally show ?thesis .
qed

lemma merged_session_run:
  "projr (output_closure proc merged_session) 5
     = Inr (proc [[1], [2], [3]] (Many [Stack [[1], [2], [3]], Stack [[5], [6], [7]]])
              DstFrame None 5,
            [FetchMany 2 5, StackFrame 0, StackFrame 1,
             Process (Many [Stack [[1], [2], [3]], Stack [[5], [6], [7]]]) DstFrame None 5])"
  by (simp add: merged_session_eq output_closure_def select_strategy_def
      frame_eval_async_def output_merged_clips_def get_frame_def getitem_def
      stack_frame_def yuv_ref_def yuv_aux_def still_def)

lemma three_planes: "length f = 3 \<Longrightarrow> \<exists>a b c. f = [a, b, c]"
  by (auto simp: length_Suc_conv numeral_3_eq_3)

lemma stack_frame_ok:
  assumes "idx < length isp" and "length f = 1 \<or> length f = 3"
    and "isp ! idx = (length f = 1)"
  shows "stack_frame isp f idx = Inr (stacked_view f)"
proof (cases "length f = 1")
  case True
  then show ?thesis using assms by (simp add: stack_frame_def getitem_def stacked_view_def)
next
  case False
  then obtain a b c where "f = [a, b, c]" using assms(2) three_planes by blast
  then show ?thesis using assms by (simp add: stack_frame_def getitem_def stacked_view_def)
qed

lemma copy_stacked_plane:
  "p < length f \<Longrightarrow> copy_view (stacked_view f) (DstPlane p) f = f"
  by (auto simp: stacked_view_def)

lemma copy_stacked_frame:
  "length f = 1 \<or> length f = 3 \<Longrightarrow> copy_view (stacked_view f) DstFrame fo = f"
  by (cases f) (auto simp: stacked_view_def)

lemma plane_loop_id:
  assumes "\<forall>p \<in> set ps. \<exists>sr. mk p = Inr sr \<and> proc f sr (DstPlane p) (Some p) n = f"
  shows "\<exists>tr'. plane_loop proc mk n ps (f, tr) = Inr (f, tr')"
  using assms
proof (induction ps arbitrary: tr)
  case Nil
  then show ?case by simp
next
  case (Cons p ps)
  then obtain sr where sr: "mk p = Inr sr" "proc f sr (DstPlane p) (Some p) n = f"
    by auto
  from Cons have "\<exists>tr'. plane_loop proc mk n ps (f, tr @ [Process sr (DstPlane p) (Some p) n])
      = Inr (f, tr')"
    by simp
  then show ?case using sr by simp
qed

lemma pre_stack_ok:
  assumes "\<forall>i < length fs. k + i < length flags \<and> k + i < length isp
             \<and> (length (fs ! i) = 1 \<or> length (fs ! i) = 3)
             \<and> isp ! (k + i) = (length (fs ! i) = 1)"
  shows "\<exists>pre. pre_stack flags isp k fs = Inr pre
           \<and> (\<forall>i < length fs. \<not> flags ! (k + i) \<longrightarrow>
                  map_of pre (k + i) = Some (stacked_view (fs ! i)))"
  using assms
proof (induction fs arbitrary: k)
  case Nil
  then show ?case by simp
next
  case (Cons f fs)
  have hd: "k < length flags" "k < length isp" "length f = 1 \<or> length f = 3"
    "isp ! k = (length f = 1)"
    using Cons.prems [rule_format, of 0] by simp_all
  have tl: "\<forall>i < length fs. Suc k + i < length flags \<and> Suc k + i < length isp
             \<and> (length (fs ! i) = 1 \<or> length (fs ! i) = 3)
             \<and> isp ! (Suc k + i) = (length (fs ! i) = 1)"
  proof (intro allI impI)
    fix i assume "i < length fs"
    then show "Suc k + i < length flags \<and> Suc k + i < length isp
             \<and> (length (fs ! i) = 1 \<or> length (fs ! i) = 3)
             \<and> isp ! (Suc k + i) = (length (fs ! i) = 1)"
      using Cons.prems [rule_format, of "Suc i"] by simp
  qed
  from Cons.IH [OF tl] obtain m where m: "pre_stack flags isp (Suc k) fs = Inr m"
    and mo: "\<forall>i < length fs. \<not> flags ! (Suc k + i) \<longrightarrow>
                  map_of m (Suc k + i) = Some (stacked_view (fs ! i))"
    by blast
  have st: "stack_frame isp f k = Inr (stacked_view f)"
    using hd by (intro stack_frame_ok) simp_all
  show ?case
  proof (cases "flags ! k")
    case True
    have "pre_stack flags isp k (f # fs) = Inr m"
      using hd True m by (simp add: getitem_def)
    moreover have "\<forall>i < length (f # fs). \<not> flags ! (k + i) \<longrightarrow>
                  map_of m (k + i) = Some (stacked_view ((f # fs) ! i))"
    proof (intro allI impI)
      fix i assume "i < length (f # fs)" "\<not> flags ! (k + i)"
      then show "map_of m (k + i) = Some (stacked_view ((f # fs) ! i))"
        using True mo by (cases i) auto
    qed
    ultimately show ?thesis by blast
  next
    case False
    have "pre_stack flags isp k (f # fs) = Inr ((k, stacked_view f) # m)"
      using hd False m st by (simp add: getitem_def)
    moreover have "\<forall>i < length (f # fs). \<not> flags ! (k + i) \<longrightarrow>
                  map_of ((k, stacked_view f) # m) (k + i) = Some (stacked_view ((f # fs) ! i))"
    proof (intro allI impI)
      fix i assume "i < length (f # fs)" "\<not> flags ! (k + i)"
      then show "map_of ((k, stacked_view f) # m) (k + i) = Some (stacked_view ((f # fs) ! i))"
        using mo by (cases i) auto
    qed
    ultimately show ?thesis by blast
  qed
qed

lemma inputs_data_ok:
  assumes "\<forall>i < length fs. k + i < length flags
             \<and> (flags ! (k + i) \<longrightarrow> p < length (fs ! i))
             \<and> (\<not> flags ! (k + i) \<longrightarrow> map_of pre (k + i) = Some (stacked_view (fs ! i)))"
  shows "\<exists>vs. inputs_data flags pre p k fs = Inr vs
           \<and> (\<forall>f fs'. fs = f # fs' \<longrightarrow>
                  hd vs = (if flags ! k then Plane (f ! p) else stacked_view f))"
  using assms
proof (induction fs arbitrary: k)
  case Nil
  then show ?case by simp
next
  case (Cons f fs)
  have hd: "k < length flags" "flags ! k \<longrightarrow> p < length f"
    "\<not> flags ! k \<longrightarrow> map_of pre k = Some (stacked_view f)"
    using Cons.prems [rule_format, of 0] by simp_all
  have tl: "\<forall>i < length fs. Suc k + i < length flags
             \<and> (flags ! (Suc k + i) \<longrightarrow> p < length (fs ! i))
             \<and> (\<not> flags ! (Suc k + i) \<longrightarrow>
                   map_of pre (Suc k + i) = Some (stacked_view (fs ! i)))"
  proof (intro allI impI)
    fix i assume "i < length fs"
    then show "Suc k + i < length flags
             \<and> (flags ! (Suc k + i) \<longrightarrow> p < length (fs ! i))
             \<and> (\<not> flags ! (Suc k + i) \<longrightarrow>
                   map_of pre (Suc k + i) = Some (stacked_view (fs ! i)))"
      using Cons.prems [rule_format, of "Suc i"] by simp
  qed
  from Cons.IH [OF tl] obtain vs where vs: "inputs_data flags pre p (Suc k) fs = Inr vs"
    by blast
  show ?case using hd vs by (auto simp: getitem_def)
qed

lemma src_arrays_ok:
  assumes "\<forall>i < length fs. k + i < length isp
             \<and> (length (fs ! i) = 1 \<or> length (fs ! i) = 3)
             \<and> isp ! (k + i) = (length (fs ! i) = 1)"
  shows "src_arrays isp k fs = Inr (map stacked_view fs)"
  using assms
proof (induction fs arbitrary: k)
  case Nil
  then show ?case by simp
next
  case (Cons f fs)
  have hd: "k < length isp" "length f = 1 \<or> length f = 3" "isp ! k = (length f = 1)"
    using Cons.prems [rule_format, of 0] by simp_all
  have tl: "\<forall>i < length fs. Suc k + i < length isp
             \<and> (length (fs ! i) = 1 \<or> length (fs ! i) = 3)
             \<and> isp ! (Suc k + i) = (length (fs ! i) = 1)"
  proof (intro allI impI)
    fix i assume "i < length fs"
    then show "Suc k + i < length isp
             \<and> (length (fs ! i) = 1 \<or> length (fs ! i) = 3)
             \<and> isp ! (Suc k + i) = (length (fs ! i) = 1)"
      using Cons.prems [rule_format, of "Suc i"] by simp
  qed
  have st: "stack_frame isp f k = Inr (stacked_view f)"
    using hd by (intro stack_frame_ok) simp_all
  show ?case using st Cons.IH [OF tl] by simp
qed

lemma copy_run:
  assumes gf: "get_frames (ref_clip s # clips s) n = Inr frames"
    and ok: "frames_ok s frames"
    and pl: "output_per_plane s \<and> clips s \<noteq> [] \<longrightarrow> planes_ok s frames"
  shows "\<exists>st tr. select_strategy s = Inr st
           \<and> run_strategy st copy_process s n = Inr (frames ! 0, tr)"
proof -
  obtain f0 fs where fr: "frames = f0 # fs"
    using gf by (cases frames) (auto split: sum.splits)
  have g0: "get_frame (ref_clip s) n = Inr f0" and gs: "get_frames (clips s) n = Inr fs"
    using get_frames_Cons [OF gf [unfolded fr]] by simp_all
  have len: "length fs = length (clips s)" using gs by (rule get_frames_length)
  have li: "length (is_single_plane s) = length frames"
    and lf: "length frames \<le> length (priv_input_per_plane s)"
    and each: "\<forall>idx < length frames. (length (frames ! idx) = 1 \<or> length (frames ! idx) = 3)
            \<and> is_single_plane s ! idx = (length (frames ! idx) = 1)"
    using ok by (simp_all add: frames_ok_def)
  have f0: "length f0 = 1 \<or> length f0 = 3" "is_single_plane s ! 0 = (length f0 = 1)"
    using each [rule_format, of 0] by (simp_all add: fr)
  have st0: "stack_frame (is_single_plane s) f0 0 = Inr (stacked_view f0)"
    using f0 li by (intro stack_frame_ok) (simp_all add: fr)
  have fl0: "getitem (priv_input_per_plane s) 0 = Inr (priv_input_per_plane s ! 0)"
    using lf by (auto simp: getitem_def fr)
  have isp: "\<forall>i < length frames. 0 + i < length (is_single_plane s)
             \<and> (length (frames ! i) = 1 \<or> length (frames ! i) = 3)
             \<and> is_single_plane s ! (0 + i) = (length (frames ! i) = 1)"
    using each li by simp
  show ?thesis
  proof (cases "output_per_plane s")
    case True
    note opp = True
    show ?thesis
    proof (cases "clips s = []")
      case False
      have sel: "select_strategy s = Inr PlanesClips"
        using opp False by (simp add: select_strategy_def)
      have po: "planes_ok s frames" using pl opp False by simp
      have "\<forall>i < length frames. 0 + i < length (priv_input_per_plane s)
             \<and> 0 + i < length (is_single_plane s)
             \<and> (length (frames ! i) = 1 \<or> length (frames ! i) = 3)
             \<and> is_single_plane s ! (0 + i) = (length (frames ! i) = 1)"
        using each li lf by simp
      from pre_stack_ok [OF this] obtain pre
        where pre: "pre_stack (priv_input_per_plane s) (is_single_plane s) 0 frames = Inr pre"
          and mo: "\<forall>i < length frames. \<not> priv_input_per_plane s ! (0 + i) \<longrightarrow>
                  map_of pre (0 + i) = Some (stacked_view (frames ! i))"
        by blast
      have mk: "\<forall>p \<in> set [0..<length f0]. \<exists>sr.
          map_sum id Many (inputs_data (priv_input_per_plane s) pre p 0 frames) = Inr sr
          \<and> copy_process f0 sr (DstPlane p) (Some p) n = f0"
      proof
        fix p assume "p \<in> set [0..<length f0]"
        then have p: "p < length f0" by simp
        have "\<forall>i < length frames. 0 + i < length (priv_input_per_plane s)
             \<and> (priv_input_per_plane s ! (0 + i) \<longrightarrow> p < length (frames ! i))
             \<and> (\<not> priv_input_per_plane s ! (0 + i) \<longrightarrow>
                   map_of pre (0 + i) = Some (stacked_view (frames ! i)))"
          using lf mo po p by (auto simp: planes_ok_def fr)
        from inputs_data_ok [OF this] obtain vs
          where vs: "inputs_data (priv_input_per_plane s) pre p 0 frames = Inr vs"
            and h: "hd vs = (if priv_input_per_plane s ! 0 then Plane (f0 ! p)
                             else stacked_view f0)"
          unfolding fr by blast
        have ne: "vs \<noteq> []" using vs by (auto simp: fr split: sum.splits if_splits)
        then obtain v vs' where c: "vs = v # vs'" by (cases vs) auto
        have "copy_view v (DstPlane p) f0 = f0"
          using h c p by (auto simp: copy_stacked_plane)
        then show "\<exists>sr. map_sum id Many (inputs_data (priv_input_per_plane s) pre p 0 frames)
              = Inr sr
            \<and> copy_process f0 sr (DstPlane p) (Some p) n = f0"
          using vs c by simp
      qed
      obtain tr where "plane_loop copy_process
          (\<lambda>p. map_sum id Many (inputs_data (priv_input_per_plane s) pre p 0 frames))
          n [0..<length f0]
          (f0, FetchMany (length (ref_clip s # clips s)) n # map (\<lambda>kv. StackFrame (fst kv)) pre)
        = Inr (f0, tr)"
        using plane_loop_id [where proc = copy_process and f = f0 and n = n
            and mk = "\<lambda>p. map_sum id Many (inputs_data (priv_input_per_plane s) pre p 0 frames)",
            OF mk] by blast
      then have "output_planes_clips copy_process s n = Inr (f0, tr)"
        unfolding output_planes_clips_def gf
        by (simp add: pre [unfolded fr] getitem_def fr del: inputs_data.simps pre_stack.simps)
      then show ?thesis using sel by (auto simp: fr)
    next
      case True
      show ?thesis
      proof (cases "priv_input_per_plane s ! 0")
        case True
        have sel: "select_strategy s = Inr PlanesRef"
          using opp \<open>clips s = []\<close> True fl0 by (simp add: select_strategy_def)
        have mk: "\<forall>p \<in> set [0..<length f0]. \<exists>sr.
            map_sum id (\<lambda>pl. One (Plane pl)) (getitem f0 p) = Inr sr
            \<and> copy_process f0 sr (DstPlane p) (Some p) n = f0"
          by (simp add: getitem_def)
        obtain tr where "plane_loop copy_process
            (\<lambda>p. map_sum id (\<lambda>pl. One (Plane pl)) (getitem f0 p))
            n [0..<length f0] (f0, [FetchOne n]) = Inr (f0, tr)"
          using plane_loop_id [where proc = copy_process and f = f0 and n = n
              and mk = "\<lambda>p. map_sum id (\<lambda>pl. One (Plane pl)) (getitem f0 p)", OF mk]
          by blast
        then have "output_planes_ref copy_process s n = Inr (f0, tr)"
          by (simp add: output_planes_ref_def g0)
        then show ?thesis using sel by (auto simp: fr)
      next
        case False
        have sel: "select_strategy s = Inr PlanesStacked"
          using opp \<open>clips s = []\<close> False fl0 by (simp add: select_strategy_def)
        have mk: "\<forall>p \<in> set [0..<length f0]. \<exists>sr.
            (Inr (One (stacked_view f0)) :: error + src) = Inr sr
            \<and> copy_process f0 sr (DstPlane p) (Some p) n = f0"
          by (simp add: copy_stacked_plane)
        obtain tr where "plane_loop copy_process (\<lambda>p. Inr (One (stacked_view f0)))
            n [0..<length f0] (f0, [FetchOne n, StackFrame 0]) = Inr (f0, tr)"
          using plane_loop_id [where proc = copy_process and f = f0 and n = n
              and mk = "\<lambda>p. Inr (One (stacked_view f0))", OF mk]
          by blast
        then have "output_planes_stacked copy_process s n = Inr (f0, tr)"
          by (simp add: output_planes_stacked_def g0 st0)
        then show ?thesis using sel by (auto simp: fr)
      qed
    qed
  next
    case False
    note opp = False
    show ?thesis
    proof (cases "clips s = []")
      case False
      have sel: "select_strategy s = Inr MergedClips"
        using opp False by (simp add: select_strategy_def)
      have cpf: "copy_view (stacked_view f0) DstFrame f0 = f0"
        using f0(1) by (rule copy_stacked_frame)
      have sa: "src_arrays (is_single_plane s) 0 frames = Inr (map stacked_view frames)"
        using src_arrays_ok [OF isp] .
      have "output_merged_clips copy_process s n
          = Inr (f0, FetchMany (length (ref_clip s # clips s)) n
                 # map StackFrame [0..<length frames]
                 @ [Process (Many (map stacked_view frames)) DstFrame None n])"
        unfolding output_merged_clips_def gf
        by (simp add: sa [unfolded fr] getitem_def fr cpf del: src_arrays.simps)
      then show ?thesis using sel by (auto simp: fr)
    next
      case True
      show ?thesis
      proof (cases "num_planes (format (ref_clip s)) = 1")
        case True
        have sel: "select_strategy s = Inr MergedSingle"
          using opp \<open>clips s = []\<close> True by (simp add: select_strategy_def)
        have ne: "0 < length f0" using f0 by auto
        have "output_merged_single copy_process s n
            = Inr (f0, [FetchOne n, Process (One (Plane (f0 ! 0))) (DstPlane 0) (Some 0) n])"
          using ne by (simp add: output_merged_single_def g0 getitem_def)
        then show ?thesis using sel by (auto simp: fr)
      next
        case False
        have sel: "select_strategy s = Inr MergedFrame"
          using opp \<open>clips s = []\<close> False by (simp add: select_strategy_def)
        have "output_merged_frame copy_process s n
            = Inr (f0, [FetchOne n, Process (Whole f0) DstFrame None n])"
          by (simp add: output_merged_frame_def g0)
        then show ?thesis using sel by (auto simp: fr)
      qed
    qed
  qed
qed

lemma length_map_planes: "length (map_planes g f) = length f"
  by (simp add: map_planes_def)

lemma map_sum_Inr: "(map_sum id g x = Inr y) = (\<exists>z. x = Inr z \<and> y = g z)"
  by (cases x) auto

lemma clip_ok_normed: "clip_ok c \<Longrightarrow> clip_ok (normed conv opts c)"
  by (auto simp: clip_ok_def normed_def std_Expr_def float_clip_def resize_def Let_def
      length_map_planes map_sum_Inr)

lemma get_frames_nth:
  "get_frames cl n = Inr frames \<Longrightarrow>
     length frames = length cl \<and> (\<forall>i < length cl. get_frame (cl ! i) n = Inr (frames ! i))"
proof (induction cl arbitrary: frames)
  case Nil
  then show ?case by simp
next
  case (Cons c cl)
  from Cons.prems obtain f fs where f: "get_frame c n = Inr f"
    and fs: "get_frames cl n = Inr fs" and fr: "frames = f # fs"
    by (auto split: sum.splits)
  from Cons.IH [OF fs] have l: "length fs = length cl"
    and nth: "\<forall>i < length cl. get_frame (cl ! i) n = Inr (fs ! i)"
    by simp_all
  show ?case
  proof (intro conjI allI impI)
    show "length frames = length (c # cl)" using fr l by simp
  next
    fix i assume "i < length (c # cl)"
    then show "get_frame ((c # cl) ! i) n = Inr (frames ! i)"
      using f nth fr by (cases i) simp_all
  qed
qed

lemma init_frames_ok:
  assumes "init conv cls r cs = Inr s"
    and "\<forall>c \<in> set (r # cs). clip_ok c"
    and "get_frames (ref_clip s # clips s) n = Inr frames"
  shows "frames_ok s frames"
proof -
  have s: "s = built conv cls r cs" using assms(1) by (rule init_Inr)
  let ?cl = "map (normed conv (options cls)) (r # cs)"
  have cl: "ref_clip s # clips s = ?cl" by (simp add: s built_def)
  have l: "length frames = length ?cl"
    and nth: "\<forall>i < length ?cl. get_frame (?cl ! i) n = Inr (frames ! i)"
    using get_frames_nth [OF assms(3) [unfolded cl]] by simp_all
  have isp: "is_single_plane s = map (\<lambda>c. num_planes (format c) = 1) (r # cs)"
    by (simp add: s built_def)
  have fl: "length frames \<le> length (priv_input_per_plane s)"
    using l by (simp add: s built_def length_flags_of)
  have each: "(length (frames ! i) = 1 \<or> length (frames ! i) = 3)
      \<and> is_single_plane s ! i = (length (frames ! i) = 1)" if i: "i < length frames" for i
  proof -
    have i': "i < length (r # cs)" using i l by simp
    then have m: "(r # cs) ! i \<in> set (r # cs)" by (rule nth_mem)
    have ok: "clip_ok (normed conv (options cls) ((r # cs) ! i))"
      using assms(2) m by (intro clip_ok_normed) blast
    have "get_frame (normed conv (options cls) ((r # cs) ! i)) n = Inr (frames ! i)"
      using nth [rule_format, of i] i' by (simp only: nth_map length_map)
    then have "frame_at (normed conv (options cls) ((r # cs) ! i)) n = Inr (frames ! i)"
      by (simp add: get_frame_Inr)
    then have len: "length (frames ! i) = num_planes (format ((r # cs) ! i))"
      using ok by (simp add: clip_ok_def format_normed)
    have np: "num_planes (format ((r # cs) ! i)) = 1 \<or> num_planes (format ((r # cs) ! i)) = 3"
      using ok by (simp add: clip_ok_def format_normed)
    have "is_single_plane s ! i = (num_planes (format ((r # cs) ! i)) = 1)"
      using i' by (simp only: isp nth_map)
    then show ?thesis using len np by simp
  qed
  show ?thesis
    unfolding frames_ok_def using l fl each by (simp add: isp)
qed

lemma default_normed: "normed conv (options default_class) c = c"
  by (simp add: default_class_def normed_def float_clip_def)

lemma scenario_b_session_eq:
  "scenario_b_session
     = \<lparr>ref_clip = yuv_ref, clips = [gray_aux, yuv_aux], out_format = format yuv_ref,
        priv_input_per_plane = [True, False, False], output_per_plane = True,
        is_single_plane = [False, True, False]\<rparr>"
proof -
  have o: "options scenario_b_class = options default_class"
    by (simp add: scenario_b_class_def)
  have "scenario_b_session = built scale_conv scenario_b_class yuv_ref [gray_aux, yuv_aux]"
    by (simp add: scenario_b_session_def scenario_b_built)
  also have "\<dots> = \<lparr>ref_clip = yuv_ref, clips = [gray_aux, yuv_aux],
        out_format = format yuv_ref,
        priv_input_per_plane = flags_of scenario_b_class (Suc (Suc (Suc 0))),
        output_per_plane
          = (num_planes (format yuv_ref) = 1 \<or> decl_output_per_plane scenario_b_class),
        is_single_plane = [num_planes (format yuv_ref) = 1, num_planes (format gray_aux) = 1,
          num_planes (format yuv_aux) = 1]\<rparr>"
    by (simp add: built_def o default_normed)
  also have "\<dots> = \<lparr>ref_clip = yuv_ref, clips = [gray_aux, yuv_aux],
        out_format = format yuv_ref,
        priv_input_per_plane = [True, False, False], output_per_plane = True,
        is_single_plane = [False, True, False]\<rparr>"
    by (simp add: flags_of_def flag_list_def scenario_b_class_def default_class_def
        yuv_ref_def yuv_aux_def gray_aux_def still_def yuv444p8_def gray8_def)
  finally show ?thesis .
qed

lemma clip_ok_still: "clip_ok (still fmt k f) = ((length f = 1 \<or> length f = 3) \<and> num_planes fmt = length f)"
  by (auto simp: clip_ok_def still_def)

lemma mixed_session_eq:
  "mixed_session
     = \<lparr>ref_clip = yuv_ref, clips = [gray_aux], out_format = format yuv_ref,
        priv_input_per_plane = [True, True], output_per_plane = True,
        is_single_plane = [False, True]\<rparr>"
proof -
  have i: "init scale_conv default_class yuv_ref [gray_aux]
      = Inr (built scale_conv default_class yuv_ref [gray_aux])"
    by (simp add: yuv_ref_def gray_aux_def init_ev)
  have "mixed_session = built scale_conv default_class yuv_ref [gray_aux]"
    by (simp add: mixed_session_def i)
  also have "\<dots> = \<lparr>ref_clip = yuv_ref, clips = [gray_aux], out_format = format yuv_ref,
        priv_input_per_plane = flags_of default_class (Suc (Suc 0)),
        output_per_plane = (num_planes (format yuv_ref) = 1 \<or> decl_output_per_plane default_class),
        is_single_plane = [num_planes (format yuv_ref) = 1, num_planes (format gray_aux) = 1]\<rparr>"
    by (simp add: built_def default_normed)
  also have "\<dots> = \<lparr>ref_clip = yuv_ref, clips = [gray_aux], out_format = format yuv_ref,
        priv_input_per_plane = [True, True], output_per_plane = True,
        is_single_plane = [False, True]\<rparr>"
    by (simp add: flags_of_def flag_list_def default_class_def
        yuv_ref_def gray_aux_def still_def yuv444p8_def gray8_def)
  finally show ?thesis .
qed

lemma normed_unchanged:
  "\<not> truthy (float_processing opts) \<Longrightarrow> \<not> shift_chroma opts \<Longrightarrow> normed conv opts c = c"
  by (simp add: normed_def float_clip_def)

lemma shifted_session_init:
  "init scale_conv shift_only_class float_ref []
     = Inr (built scale_conv shift_only_class float_ref [])"
  by (simp add: shift_only_class_def shift_opts_def float_ref_def yuv444ps_def init_ev)

lemma shifted_session_eq:
  "shifted_session
     = \<lparr>ref_clip = std_Expr [EmptyExpr, XPlusHalf] float_ref, clips = [],
        out_format = yuv444ps, priv_input_per_plane = [True], output_per_plane = True,
        is_single_plane = [False]\<rparr>"
proof -
  have n: "normed scale_conv (options shift_only_class) float_ref
      = std_Expr [EmptyExpr, XPlusHalf] float_ref"
    by (simp add: normed_def float_clip_def shift_only_class_def shift_opts_def
        float_ref_def still_def yuv444ps_def)
  have "shifted_session = built scale_conv shift_only_class float_ref []"
    by (simp add: shifted_session_def shifted_session_init)
  also have "\<dots> = \<lparr>ref_clip = std_Expr [EmptyExpr, XPlusHalf] float_ref, clips = [],
        out_format = format float_ref,
        priv_input_per_plane = flags_of shift_only_class (Suc 0),
        output_per_plane
          = (num_planes (format float_ref) = 1 \<or> decl_output_per_plane shift_only_class),
        is_single_plane = [num_planes (format float_ref) = 1]\<rparr>"
    by (simp add: built_def n)
  also have "\<dots> = \<lparr>ref_clip = std_Expr [EmptyExpr, XPlusHalf] float_ref, clips = [],
        out_format = yuv444ps, priv_input_per_plane = [True], output_per_plane = True,
        is_single_plane = [False]\<rparr>"
    by (simp add: flags_of_def flag_list_def shift_only_class_def default_class_def
        float_ref_def still_def yuv444ps_def)
  finally show ?thesis .
qed

lemma shifted_run:
  "\<not> isl (invoke scale_conv copy_process shifted_session)"
  "frame_at (projr (invoke scale_conv copy_process shifted_session)) 5
     = Inr [[1 / 4], [1 / 2], [1 / 4]]"
proof -
  have sel: "select_strategy shifted_session = Inr PlanesRef"
    by (simp add: shifted_session_eq select_strategy_def getitem_def)
  have fa: "frame_at float_ref 5 = Inr [[1 / 4], [0], [- 1 / 4]]"
    by (simp add: float_ref_def still_def)
  have gf: "get_frame (ref_clip shifted_session) 5 = Inr [[1 / 4], [1 / 2], [1 / 4]]"
    by (simp add: shifted_session_eq get_frame_def frame_at_std_Expr [OF fa] shift_three)
      (simp add: std_Expr_def float_ref_def still_def)
  have run: "output_planes_ref copy_process shifted_session 5
      = Inr ([[1 / 4], [1 / 2], [1 / 4]],
             [FetchOne 5,
              Process (One (Plane [1 / 4])) (DstPlane 0) (Some 0) 5,
              Process (One (Plane [1 / 2])) (DstPlane 1) (Some 1) 5,
              Process (One (Plane [1 / 4])) (DstPlane 2) (Some 2) 5])"
    by (simp add: output_planes_ref_def gf getitem_def
        upt_rec [of 0] upt_rec [of 1] upt_rec [of 2])
  have n: "num_frames (ref_clip shifted_session) = 10"
    by (simp add: shifted_session_eq std_Expr_def float_ref_def still_def)
  have f: "out_format shifted_session = format (ref_clip shifted_session)"
    by (simp add: shifted_session_eq std_Expr_def float_ref_def still_def)
  have "invoke scale_conv copy_process shifted_session
      = Inr (ensure_output scale_conv shifted_session
          \<lparr>format = format (ref_clip shifted_session),
           num_frames = num_frames (ref_clip shifted_session),
           frame_at = (\<lambda>n. map_sum id fst
              (frame_eval_async (ref_clip shifted_session)
                 (output_planes_ref copy_process shifted_session) n))\<rparr>)"
    by (simp add: invoke_def output_closure_def sel)
  then show "\<not> isl (invoke scale_conv copy_process shifted_session)"
    and "frame_at (projr (invoke scale_conv copy_process shifted_session)) 5
     = Inr [[1 / 4], [1 / 2], [1 / 4]]"
    using f by (simp_all add: ensure_output_def frame_eval_async_def n run)
qed

lemma mixed_run:
  "\<not> isl (init scale_conv default_class yuv_ref [gray_aux])
   \<and> get_frame yuv_ref 5 = Inr [[1], [2], [3]]
   \<and> get_frame gray_aux 5 = Inr [[4]]
   \<and> \<not> isl (invoke scale_conv copy_process mixed_session)
   \<and> frame_at (projr (invoke scale_conv copy_process mixed_session)) 5 = Inl IndexError"
proof -
  have a: "\<not> isl (init scale_conv default_class yuv_ref [gray_aux])"
    by (simp add: yuv_ref_def gray_aux_def init_ev)
  have b: "get_frame yuv_ref 5 = Inr [[1], [2], [3]]" "get_frame gray_aux 5 = Inr [[4]]"
    by (simp_all add: get_frame_def yuv_ref_def gray_aux_def still_def)
  have sel: "select_strategy mixed_session = Inr PlanesClips"
    by (simp add: mixed_session_eq select_strategy_def)
  have run: "output_planes_clips copy_process mixed_session 5 = Inl IndexError"
    by (simp add: output_planes_clips_def mixed_session_eq b getitem_def
        upt_rec [of 0] upt_rec [of 1] upt_rec [of 2])
  have n: "num_frames (ref_clip mixed_session) = 10"
    by (simp add: mixed_session_eq yuv_ref_def still_def)
  have "invoke scale_conv copy_process mixed_session
      = Inr (ensure_output scale_conv mixed_session
          \<lparr>format = format (ref_clip mixed_session),
           num_frames = num_frames (ref_clip mixed_session),
           frame_at = (\<lambda>n. map_sum id fst
              (frame_eval_async (ref_clip mixed_session)
                 (output_planes_clips copy_process mixed_session) n))\<rparr>)"
    by (simp add: invoke_def output_closure_def sel)
  moreover have "out_format mixed_session = format (ref_clip mixed_session)"
    by (simp add: mixed_session_eq)
  ultimately have "\<not> isl (invoke scale_conv copy_process mixed_session)"
    and "frame_at (projr (invoke scale_conv copy_process mixed_session)) 5 = Inl IndexError"
    by (simp_all add: ensure_output_def frame_eval_async_def n run)
  then show ?thesis using a b by simp
qed

section \<open>The stacking helper\<close>

text \<open>
  C1. For a frame with three channel-planes whose stream is not single-plane,
  \<open>_stack_frame\<close> returns exactly the three planes in ascending plane order;
  for a frame with one channel-plane whose stream is single-plane it returns
  that plane.
\<close>

theorem stack_frame_order:
  assumes "idx < length isp"
  shows "(\<not> isp ! idx \<longrightarrow> stack_frame isp [y, u, v] idx = Inr (Stack [y, u, v]))
       \<and> (isp ! idx \<longrightarrow> stack_frame isp [y] idx = Inr (Plane y))"
  using assms by (simp add: stack_frame_def getitem_def)

theorem stack_frame_order_witness:
  "(0::nat) < length [False, True]
   \<and> stack_frame [False, True] [[1, 2], [3], [4]] 0 = Inr (Stack [[1, 2], [3], [4]])
   \<and> stack_frame [False, True] [[7, 8]] 1 = Inr (Plane [7, 8])"
proof -
  have h0: "(0::nat) < length [False, True]" by simp
  have h1: "(1::nat) < length [False, True]" by simp
  show ?thesis
    using h0 stack_frame_order [OF h0, of "[1, 2]" "[3]" "[4]"]
      stack_frame_order [OF h1, of "[7, 8]"]
    by simp
qed

section \<open>Normalisation of a clip\<close>

text \<open>
  C8. With \<open>shift_chroma\<close> set, \<open>norm_clip\<close> raises the configuration error for
  a clip whose samples are not float when \<open>float_processing\<close> is unset. When
  the samples are float or \<open>float_processing\<close> is set it returns a clip in the
  format of the float conversion; for a three-plane format every three-plane
  frame of the converted clip keeps its first plane and has \<open>0.5\<close> added to
  every sample of the other two, and for a one-plane format the converted clip
  is returned as it is.
\<close>

theorem shift_chroma_norm:
  assumes "shift_chroma opts"
  shows "(sample_type (format c) \<noteq> FLOAT \<and> \<not> truthy (float_processing opts) \<longrightarrow>
            norm_clip conv opts c = Inl ConfigurationError)
       \<and> (sample_type (format c) = FLOAT \<or> truthy (float_processing opts) \<longrightarrow>
            (\<exists>c'. norm_clip conv opts c = Inr c'
               \<and> format c' = format (float_clip conv opts c)
               \<and> (num_planes (format c) = 3 \<longrightarrow>
                    (\<forall>n y u v. frame_at (float_clip conv opts c) n = Inr [y, u, v] \<longrightarrow>
                       frame_at c' n
                         = Inr [y, map (\<lambda>x. x + 1 / 2) u, map (\<lambda>x. x + 1 / 2) v]))
               \<and> (num_planes (format c) = 1 \<longrightarrow> c' = float_clip conv opts c)))"
proof (intro conjI impI)
  assume "sample_type (format c) \<noteq> FLOAT \<and> \<not> truthy (float_processing opts)"
  then show "norm_clip conv opts c = Inl ConfigurationError"
    using assms by (simp add: norm_clip_def)
next
  assume ok: "sample_type (format c) = FLOAT \<or> truthy (float_processing opts)"
  then have n: "norm_clip conv opts c = Inr (normed conv opts c)"
    using assms by (simp add: norm_clip_eq norm_ok_def)
  have "format (normed conv opts c) = format (float_clip conv opts c)"
    by (simp add: normed_def format_std_Expr)
  moreover have "num_planes (format c) = 3 \<longrightarrow>
      (\<forall>n y u v. frame_at (float_clip conv opts c) n = Inr [y, u, v] \<longrightarrow>
         frame_at (normed conv opts c) n
           = Inr [y, map (\<lambda>x. x + 1 / 2) u, map (\<lambda>x. x + 1 / 2) v])"
    using assms by (simp add: normed_def frame_at_std_Expr shift_three)
  moreover have "num_planes (format c) = 1 \<longrightarrow> normed conv opts c = float_clip conv opts c"
    by (simp add: normed_def)
  ultimately show "\<exists>c'. norm_clip conv opts c = Inr c'
               \<and> format c' = format (float_clip conv opts c)
               \<and> (num_planes (format c) = 3 \<longrightarrow>
                    (\<forall>n y u v. frame_at (float_clip conv opts c) n = Inr [y, u, v] \<longrightarrow>
                       frame_at c' n
                         = Inr [y, map (\<lambda>x. x + 1 / 2) u, map (\<lambda>x. x + 1 / 2) v]))
               \<and> (num_planes (format c) = 1 \<longrightarrow> c' = float_clip conv opts c)"
    using n by blast
qed

theorem shift_chroma_norm_witness:
  "shift_chroma shift_opts
   \<and> norm_clip scale_conv shift_opts (still yuv444p8 2 [[16], [128], [128]])
       = Inl ConfigurationError
   \<and> frame_at (projr (norm_clip scale_conv shift_opts
        (still yuv444ps 2 [[1 / 4], [0], [- 1 / 4]]))) 0 = Inr [[1 / 4], [1 / 2], [1 / 4]]
   \<and> norm_clip scale_conv shift_opts (still grays 2 [[1 / 4]]) = Inr (still grays 2 [[1 / 4]])"
proof -
  let ?i = "still yuv444p8 2 [[16], [128], [128]]"
  let ?f = "still yuv444ps 2 [[1 / 4], [0], [- 1 / 4]]"
  have h: "shift_chroma shift_opts" by (simp add: shift_opts_def)
  have a: "sample_type (format ?i) \<noteq> FLOAT \<and> \<not> truthy (float_processing shift_opts)"
    by (simp add: shift_opts_def still_def yuv444p8_def)
  have b: "sample_type (format ?f) = FLOAT \<or> truthy (float_processing shift_opts)"
    "num_planes (format ?f) = 3"
    "frame_at (float_clip scale_conv shift_opts ?f) 0 = Inr [[1 / 4], [0], [- 1 / 4]]"
    by (simp_all add: shift_opts_def still_def yuv444ps_def float_clip_def)
  have e: "norm_clip scale_conv shift_opts ?i = Inl ConfigurationError"
    using a shift_chroma_norm [OF h, of ?i scale_conv] by blast
  obtain c' where c: "norm_clip scale_conv shift_opts ?f = Inr c'"
    "frame_at c' 0 = Inr [[1 / 4], map (\<lambda>x. x + 1 / 2) [0], map (\<lambda>x. x + 1 / 2) [- 1 / 4]]"
    using b shift_chroma_norm [OF h, of ?f scale_conv] by blast
  have d: "sample_type (format (still grays 2 [[1 / 4]])) = FLOAT
      \<or> truthy (float_processing shift_opts)"
    "num_planes (format (still grays 2 [[1 / 4]])) = 1"
    "float_clip scale_conv shift_opts (still grays 2 [[1 / 4]]) = still grays 2 [[1 / 4]]"
    by (simp_all add: shift_opts_def still_def grays_def float_clip_def)
  have g: "norm_clip scale_conv shift_opts (still grays 2 [[1 / 4]])
      = Inr (still grays 2 [[1 / 4]])"
    using d shift_chroma_norm [OF h, of "still grays 2 [[1 / 4]]" scale_conv] by auto
  show ?thesis using h e c g by simp
qed

text \<open>
  C9. For a three-plane 8-bit integer reference clip, the default class
  attributes and any auxiliary clips, the construction succeeds with
  \<open>float_processing = 32\<close> both with and without \<open>shift_chroma\<close>; the
  normalised reference clip has 32-bit float samples in both sessions, and each
  of its three-plane frames with \<open>shift_chroma\<close> is the frame without it with
  \<open>0.5\<close> added to the samples of the second and third plane.
\<close>

theorem float_shift_session:
  assumes "num_planes (format r) = 3"
    and "sample_type (format r) = INTEGER"
    and "bits_per_sample (format r) = 8"
  shows "\<exists>s s0. init conv shift_class r cs = Inr s \<and> init conv float_class r cs = Inr s0
       \<and> format (ref_clip s) = (format r)\<lparr>sample_type := FLOAT, bits_per_sample := 32\<rparr>
       \<and> format (ref_clip s0) = format (ref_clip s)
       \<and> (\<forall>n y u v. frame_at (ref_clip s0) n = Inr [y, u, v] \<longrightarrow>
            frame_at (ref_clip s) n
              = Inr [y, map (\<lambda>x. x + 1 / 2) u, map (\<lambda>x. x + 1 / 2) v])"
proof -
  have ok1: "list_all (norm_ok (options shift_class)) cs'" for cs'
    by (induction cs') (simp_all add: norm_ok_def shift_class_def)
  have ok0: "list_all (norm_ok (options float_class)) cs'" for cs'
    by (induction cs') (simp_all add: norm_ok_def float_class_def)
  have i1: "init conv shift_class r cs = Inr (built conv shift_class r cs)"
  proof (rule init_success)
    show "list_all (norm_ok (options shift_class)) (r # cs)" by (rule ok1)
  qed (simp_all add: shift_class_def default_class_def flag_list_def count_error_def
        flags_of_default inputs_ok_all_True del: replicate_Suc)
  have i0: "init conv float_class r cs = Inr (built conv float_class r cs)"
  proof (rule init_success)
    show "list_all (norm_ok (options float_class)) (r # cs)" by (rule ok0)
  qed (simp_all add: float_class_def default_class_def flag_list_def count_error_def
        flags_of_default inputs_ok_all_True del: replicate_Suc)
  have fc: "float_clip conv (options shift_class) r = float_clip conv (options float_class) r"
    by (simp add: float_clip_def shift_class_def float_class_def)
  have r1: "ref_clip (built conv shift_class r cs)
      = std_Expr [EmptyExpr, XPlusHalf] (float_clip conv (options float_class) r)"
    using assms(1) fc by (simp add: built_def normed_def shift_class_def)
  have r0: "ref_clip (built conv float_class r cs) = float_clip conv (options float_class) r"
    by (simp add: built_def normed_def float_class_def)
  have f0: "format (float_clip conv (options float_class) r)
      = (format r)\<lparr>sample_type := FLOAT, bits_per_sample := 32\<rparr>"
    using assms(2) by (simp add: float_clip_def float_class_def resize_def Let_def)
  have "format (ref_clip (built conv shift_class r cs))
      = (format r)\<lparr>sample_type := FLOAT, bits_per_sample := 32\<rparr>"
    by (simp only: r1 format_std_Expr f0)
  moreover have "format (ref_clip (built conv float_class r cs))
      = format (ref_clip (built conv shift_class r cs))"
    by (simp only: r1 r0 format_std_Expr)
  moreover have "\<forall>n y u v. frame_at (ref_clip (built conv float_class r cs)) n = Inr [y, u, v] \<longrightarrow>
      frame_at (ref_clip (built conv shift_class r cs)) n
        = Inr [y, map (\<lambda>x. x + 1 / 2) u, map (\<lambda>x. x + 1 / 2) v]"
    by (simp add: r1 r0 frame_at_std_Expr shift_three)
  ultimately show ?thesis using i1 i0 by blast
qed

theorem float_shift_session_witness:
  "num_planes (format (still yuv444p8 2 [[51], [102], [204]])) = 3
   \<and> \<not> isl (init scale_conv shift_class (still yuv444p8 2 [[51], [102], [204]]) [])
   \<and> sample_type (format (ref_clip (projr
        (init scale_conv shift_class (still yuv444p8 2 [[51], [102], [204]]) [])))) = FLOAT
   \<and> frame_at (ref_clip (projr
        (init scale_conv float_class (still yuv444p8 2 [[51], [102], [204]]) []))) 0
       = Inr [[1 / 5], [2 / 5], [4 / 5]]
   \<and> frame_at (ref_clip (projr
        (init scale_conv shift_class (still yuv444p8 2 [[51], [102], [204]]) []))) 0
       = Inr [[1 / 5], [9 / 10], [13 / 10]]"
proof -
  let ?r = "still yuv444p8 2 [[51], [102], [204]]"
  have h: "num_planes (format ?r) = 3" "sample_type (format ?r) = INTEGER"
    "bits_per_sample (format ?r) = 8"
    by (simp_all add: still_def yuv444p8_def)
  obtain s s0 where s: "init scale_conv shift_class ?r [] = Inr s"
    and s0: "init scale_conv float_class ?r [] = Inr s0"
    and f: "format (ref_clip s) = (format ?r)\<lparr>sample_type := FLOAT, bits_per_sample := 32\<rparr>"
    and sh: "\<forall>n y u v. frame_at (ref_clip s0) n = Inr [y, u, v] \<longrightarrow>
            frame_at (ref_clip s) n
              = Inr [y, map (\<lambda>x. x + 1 / 2) u, map (\<lambda>x. x + 1 / 2) v]"
    using float_shift_session [OF h, of scale_conv "[]"] by blast
  have "init scale_conv float_class ?r [] = Inr (built scale_conv float_class ?r [])"
    by (simp add: float_class_def init_ev)
  then have "s0 = built scale_conv float_class ?r []" using s0 by simp
  then have b: "frame_at (ref_clip s0) 0 = Inr [[1 / 5], [2 / 5], [4 / 5]]"
    by (simp add: float_class_def init_ev resize_def map_planes_three scale_conv_def)
  from sh b have "frame_at (ref_clip s) 0 = Inr [[1 / 5], [9 / 10], [13 / 10]]" by simp
  then show ?thesis using h s s0 f b by simp
qed

section \<open>Session construction\<close>

text \<open>
  C2, as the code has it. When a construction succeeds, \<open>_input_per_plane\<close> is
  at that moment the list the class attribute \<open>input_per_plane\<close> held when the
  construction started (a single boolean counts as a list of one) followed by
  copies of its last entry up to \<open>1 + k\<close> entries. Its length is the larger of
  the length of that list and \<open>1 + k\<close>: a longer list is kept as it is (nothing
  truncates it), and an empty list makes the construction fail with
  \<open>IndexError\<close>. For a declared list, \<open>_input_per_plane\<close> is the list object of
  the class, so the class attribute holds the extended list afterwards.
\<close>

theorem construct_flag_vector:
  assumes "construct conv cls r cs = (Inr (s, obj), cls')"
  shows "priv_input_per_plane s =
           flag_list (decl_input_per_plane cls)
             @ replicate (1 + length cs - length (flag_list (decl_input_per_plane cls)))
                 (last (flag_list (decl_input_per_plane cls)))
       \<and> length (priv_input_per_plane s)
           = max (length (flag_list (decl_input_per_plane cls))) (1 + length cs)
       \<and> vector_now cls' (s, obj) = priv_input_per_plane s
       \<and> (obj = ClassList) = (\<exists>l. decl_input_per_plane cls = FlagList l)"
proof -
  have i: "init conv cls r cs = Inr s"
    using assms construct_value [of conv cls r cs] by simp
  then have s: "s = built conv cls r cs" by (rule init_Inr)
  have ok: "list_all (norm_ok (options cls)) (r # cs)"
    "flag_list (decl_input_per_plane cls) \<noteq> []"
    using i by (rule init_Inr)+
  have o: "obj = (case decl_input_per_plane cls of OneFlag b \<Rightarrow> OwnList | FlagList l \<Rightarrow> ClassList)"
    and c: "cls' = (case decl_input_per_plane cls of
              OneFlag b \<Rightarrow> cls
            | FlagList l \<Rightarrow> cls\<lparr>decl_input_per_plane := FlagList (flags_of cls (1 + length cs))\<rparr>)"
    using assms ok by (simp_all add: construct_eq i)
  have p: "priv_input_per_plane s = flags_of cls (1 + length cs)"
    by (simp add: s built_def)
  have 1: "priv_input_per_plane s =
           flag_list (decl_input_per_plane cls)
             @ replicate (1 + length cs - length (flag_list (decl_input_per_plane cls)))
                 (last (flag_list (decl_input_per_plane cls)))"
    by (simp add: p flags_of_def Let_def)
  have 2: "length (priv_input_per_plane s)
           = max (length (flag_list (decl_input_per_plane cls))) (1 + length cs)"
    by (simp add: p length_flags_of)
  have 3: "vector_now cls' (s, obj) = priv_input_per_plane s"
    by (cases "decl_input_per_plane cls") (simp_all add: vector_now_def o c p flag_list_def)
  have 4: "(obj = ClassList) = (\<exists>l. decl_input_per_plane cls = FlagList l)"
    by (cases "decl_input_per_plane cls") (simp_all add: o)
  show ?thesis using 1 2 3 4 by blast
qed

theorem construct_flag_vector_witness:
  "\<not> isl (fst (construct scale_conv two_flag_class yuv_ref [gray_aux, yuv_aux]))
   \<and> priv_input_per_plane (fst (projr (fst
        (construct scale_conv two_flag_class yuv_ref [gray_aux, yuv_aux]))))
       = [True, False, False]
   \<and> snd (projr (fst (construct scale_conv two_flag_class yuv_ref [gray_aux, yuv_aux])))
       = ClassList
   \<and> vector_now (snd (construct scale_conv two_flag_class yuv_ref [gray_aux, yuv_aux]))
        (projr (fst (construct scale_conv two_flag_class yuv_ref [gray_aux, yuv_aux])))
       = [True, False, False]"
proof -
  let ?c = "construct scale_conv two_flag_class yuv_ref [gray_aux, yuv_aux]"
  have ok: "\<not> isl (fst ?c)"
    by (simp add: construct_eq two_flag_class_def clip_ev init_ev)
  then have h: "?c = (Inr (fst (projr (fst ?c)), snd (projr (fst ?c))), snd ?c)"
    by (cases ?c; cases "fst ?c") auto
  have d: "flag_list (decl_input_per_plane two_flag_class) = [True, False]"
    "decl_input_per_plane two_flag_class = FlagList [True, False]"
    by (simp_all add: two_flag_class_def flag_list_def)
  show ?thesis
    using ok construct_flag_vector [OF h] by (simp add: d flag_list_def)
qed

text \<open>
  C2 as stated fails, in three ways. With two declared flags and no auxiliary
  stream the construction succeeds and the flag vector has two entries, not
  \<open>1 + 0\<close>. A class that declares \<open>[True, False]\<close> and has been constructed
  with three auxiliary streams holds a list of four entries, so a construction
  with one auxiliary stream gives a vector of four entries, not \<open>1 + 1\<close>. And
  the vector of a session constructed with one auxiliary stream has two
  entries when the construction returns, and four once the same class has been
  constructed with three auxiliary streams.
\<close>

theorem construct_flag_vector_counterexample:
  "\<not> isl (fst (construct scale_conv long_flag_class yuv_ref []))
   \<and> length (priv_input_per_plane
         (fst (projr (fst (construct scale_conv long_flag_class yuv_ref [])))))
       \<noteq> 1 + length ([] :: clip list)
   \<and> decl_input_per_plane two_flag_class = FlagList [True, False]
   \<and> \<not> isl (fst (construct scale_conv grown_class yuv_ref [gray_aux]))
   \<and> length (priv_input_per_plane
         (fst (projr (fst (construct scale_conv grown_class yuv_ref [gray_aux])))))
       \<noteq> 1 + length [gray_aux]
   \<and> length (priv_input_per_plane
         (fst (projr (fst (construct scale_conv two_flag_class yuv_ref [gray_aux])))))
       = 1 + length [gray_aux]
   \<and> length (vector_now
         (snd (construct scale_conv
                 (snd (construct scale_conv two_flag_class yuv_ref [gray_aux]))
                 yuv_ref [gray_aux, yuv_aux, yuv_aux]))
         (projr (fst (construct scale_conv two_flag_class yuv_ref [gray_aux]))))
       \<noteq> 1 + length [gray_aux]"
proof -
  have a: "\<not> isl (fst (construct scale_conv long_flag_class yuv_ref []))"
    "length (priv_input_per_plane
         (fst (projr (fst (construct scale_conv long_flag_class yuv_ref [])))))
       \<noteq> 1 + length ([] :: clip list)"
    by (simp_all add: construct_eq long_flag_class_def clip_ev init_ev)
  have d: "decl_input_per_plane two_flag_class = FlagList [True, False]"
    by (simp add: two_flag_class_def)
  have g: "grown_class
      = default_class\<lparr>decl_input_per_plane := FlagList [True, False, False, False]\<rparr>"
    by (simp add: grown_class_def construct_eq two_flag_class_def clip_ev init_ev)
  have b: "\<not> isl (fst (construct scale_conv grown_class yuv_ref [gray_aux]))"
    "length (priv_input_per_plane
         (fst (projr (fst (construct scale_conv grown_class yuv_ref [gray_aux])))))
       \<noteq> 1 + length [gray_aux]"
    by (simp_all add: g construct_eq clip_ev init_ev)
  have c1: "construct scale_conv two_flag_class yuv_ref [gray_aux]
      = (Inr (built scale_conv two_flag_class yuv_ref [gray_aux], ClassList), two_flag_class)"
    by (simp add: construct_eq two_flag_class_def clip_ev init_ev)
  have c2: "snd (construct scale_conv two_flag_class yuv_ref [gray_aux, yuv_aux, yuv_aux])
      = default_class\<lparr>decl_input_per_plane := FlagList [True, False, False, False]\<rparr>"
    using g by (simp add: grown_class_def)
  have c: "length (priv_input_per_plane
         (fst (projr (fst (construct scale_conv two_flag_class yuv_ref [gray_aux])))))
       = 1 + length [gray_aux]"
    "length (vector_now
         (snd (construct scale_conv
                 (snd (construct scale_conv two_flag_class yuv_ref [gray_aux]))
                 yuv_ref [gray_aux, yuv_aux, yuv_aux]))
         (projr (fst (construct scale_conv two_flag_class yuv_ref [gray_aux]))))
       \<noteq> 1 + length [gray_aux]"
    unfolding c1 snd_conv fst_conv c2
    by (simp_all add: vector_now_def flag_list_def built_def flags_of_def
        two_flag_class_def)
  show ?thesis using a d b c by blast
qed

text \<open>
  C6. The reference format is chroma-subsampled (so it has three planes, as every
  subsampled host format does), \<open>norm_clip\<close> raises for no clip, a flag is
  declared and the stream count is in range. Then declaring
  \<open>output_per_plane = False\<close> raises the subsampling error for the output, and
  declaring \<open>True\<close> succeeds when no stacked input stream is subsampled.
\<close>

theorem subsampled_reference:
  assumes "subsampled (format r)"
    and "num_planes (format r) \<noteq> 1"
    and "list_all (norm_ok (options cls)) (r # cs)"
    and "flag_list (decl_input_per_plane cls) \<noteq> []"
    and "\<not> count_error cls (1 + length cs)"
  shows "(\<not> decl_output_per_plane cls \<longrightarrow>
            init conv cls r cs = Inl (SubsamplingError Output))
       \<and> (decl_output_per_plane cls \<and> inputs_ok (r # cs) (flags_of cls (1 + length cs)) \<longrightarrow>
            (\<exists>s. init conv cls r cs = Inr s))"
proof (intro conjI impI)
  assume "\<not> decl_output_per_plane cls"
  then show "init conv cls r cs = Inl (SubsamplingError Output)"
    using assms by (simp add: init_eq)
next
  assume "decl_output_per_plane cls \<and> inputs_ok (r # cs) (flags_of cls (1 + length cs))"
  then have "init conv cls r cs = Inr (built conv cls r cs)"
    using assms by (intro init_success) simp_all
  then show "\<exists>s. init conv cls r cs = Inr s" ..
qed

theorem subsampled_reference_witness:
  "subsampled (format (still yuv420p8 2 [[1, 2, 3, 4], [5], [6]]))
   \<and> init scale_conv merged_class (still yuv420p8 2 [[1, 2, 3, 4], [5], [6]]) []
       = Inl (SubsamplingError Output)
   \<and> \<not> isl (init scale_conv default_class (still yuv420p8 2 [[1, 2, 3, 4], [5], [6]]) [])"
proof -
  let ?r = "still yuv420p8 2 [[1, 2, 3, 4], [5], [6]]"
  have h1: "subsampled (format ?r)" by (simp add: init_ev)
  have h2: "num_planes (format ?r) \<noteq> 1" by (simp add: init_ev)
  have m3: "list_all (norm_ok (options merged_class)) [?r]"
    by (simp add: merged_class_def init_ev)
  have m4: "flag_list (decl_input_per_plane merged_class) \<noteq> []"
    by (simp add: merged_class_def init_ev)
  have m5: "\<not> count_error merged_class (1 + length ([] :: clip list))"
    by (simp add: merged_class_def init_ev)
  have d3: "list_all (norm_ok (options default_class)) [?r]" by (simp add: init_ev)
  have d4: "flag_list (decl_input_per_plane default_class) \<noteq> []" by (simp add: init_ev)
  have d5: "\<not> count_error default_class (1 + length ([] :: clip list))"
    by (simp add: init_ev)
  have d6: "decl_output_per_plane default_class
      \<and> inputs_ok [?r] (flags_of default_class (1 + length ([] :: clip list)))"
    by (simp add: init_ev)
  have m6: "\<not> decl_output_per_plane merged_class" by (simp add: merged_class_def init_ev)
  show ?thesis
    using h1 m6 d6 subsampled_reference [OF h1 h2 m3 m4 m5, of scale_conv]
      subsampled_reference [OF h1 h2 d3 d4 d5, of scale_conv]
    by auto
qed

text \<open>
  C7. With the other preconditions of the construction met, it succeeds when
  \<open>min_clips \<le> 1 + k\<close> and \<open>1 + k \<le> max_clips\<close> for a bounded \<open>max_clips\<close>, and
  raises the stream count error when \<open>1 + k < min_clips\<close>, or \<open>max_clips\<close> is
  bounded and \<open>1 + k > max_clips\<close>. The code treats \<open>max_clips\<close> as bounded when
  it is positive (the default \<open>-1\<close> is unbounded).
\<close>

theorem stream_count_bounds:
  assumes "list_all (norm_ok (options cls)) (r # cs)"
    and "flag_list (decl_input_per_plane cls) \<noteq> []"
    and "num_planes (format r) = 1 \<or> decl_output_per_plane cls \<or> \<not> subsampled (format r)"
    and "inputs_ok (r # cs) (flags_of cls (1 + length cs))"
  shows "(min_clips cls \<le> 1 + int (length cs)
            \<and> (0 < max_clips cls \<longrightarrow> 1 + int (length cs) \<le> max_clips cls) \<longrightarrow>
            (\<exists>s. init conv cls r cs = Inr s))
       \<and> (1 + int (length cs) < min_clips cls
            \<or> (0 < max_clips cls \<and> max_clips cls < 1 + int (length cs)) \<longrightarrow>
            init conv cls r cs = Inl StreamCountError)"
proof (intro conjI impI)
  assume "min_clips cls \<le> 1 + int (length cs)
            \<and> (0 < max_clips cls \<longrightarrow> 1 + int (length cs) \<le> max_clips cls)"
  then have "\<not> count_error cls (1 + length cs)" by (auto simp: count_error_def)
  then have "init conv cls r cs = Inr (built conv cls r cs)"
    using assms by (intro init_success) simp_all
  then show "\<exists>s. init conv cls r cs = Inr s" ..
next
  assume "1 + int (length cs) < min_clips cls
            \<or> (0 < max_clips cls \<and> max_clips cls < 1 + int (length cs))"
  then have "count_error cls (1 + length cs)" by (auto simp: count_error_def)
  then show "init conv cls r cs = Inl StreamCountError"
    using assms(1,2) by (simp add: init_eq)
qed

theorem stream_count_bounds_witness:
  "\<not> isl (init scale_conv bounded_class (still gray8 2 [[1]]) [still gray8 2 [[2]]])
   \<and> init scale_conv bounded_class (still gray8 2 [[1]]) [] = Inl StreamCountError
   \<and> init scale_conv bounded_class (still gray8 2 [[1]])
        [still gray8 2 [[2]], still gray8 2 [[3]]] = Inl StreamCountError"
proof -
  let ?r = "still gray8 2 [[1]]"
  let ?a = "still gray8 2 [[2]]"
  let ?b = "still gray8 2 [[3]]"
  have n: "list_all (norm_ok (options bounded_class)) cs" for cs
    by (induction cs) (simp_all add: bounded_class_def init_ev)
  have f: "flag_list (decl_input_per_plane bounded_class) \<noteq> []"
    by (simp add: bounded_class_def init_ev)
  have o: "num_planes (format ?r) = 1 \<or> decl_output_per_plane bounded_class
      \<or> \<not> subsampled (format ?r)"
    by (simp add: init_ev)
  have i0: "inputs_ok [?r] (flags_of bounded_class (1 + length ([] :: clip list)))"
    by (simp add: bounded_class_def init_ev)
  have i1: "inputs_ok [?r, ?a] (flags_of bounded_class (1 + length [?a]))"
    by (simp add: bounded_class_def init_ev)
  have i2: "inputs_ok [?r, ?a, ?b] (flags_of bounded_class (1 + length [?a, ?b]))"
    by (simp add: bounded_class_def init_ev)
  have b: "min_clips bounded_class = 2" "max_clips bounded_class = 2"
    by (simp_all add: bounded_class_def)
  show ?thesis
    using stream_count_bounds [OF n f o i0, of scale_conv]
      stream_count_bounds [OF n f o i1, of scale_conv]
      stream_count_bounds [OF n f o i2, of scale_conv]
    by (auto simp: b)
qed

text \<open>
  C10. For a reference format with one plane the construction does the same
  whether \<open>output_per_plane\<close> is declared \<open>False\<close> or \<open>True\<close> (so a declared
  \<open>False\<close> adds no error), and the session has \<open>output_per_plane = True\<close>.
  Hence no constructed session selects the merged-output single-plane closure,
  and merged output implies a reference format that does not have one plane.
\<close>

theorem single_plane_output:
  "(num_planes (format r) = 1 \<longrightarrow>
      init conv (cls\<lparr>decl_output_per_plane := False\<rparr>) r cs
        = init conv (cls\<lparr>decl_output_per_plane := True\<rparr>) r cs)
   \<and> (init conv cls r cs = Inr s \<longrightarrow>
        (num_planes (format r) = 1 \<longrightarrow> output_per_plane s)
        \<and> select_strategy s \<noteq> Inr MergedSingle
        \<and> (\<not> output_per_plane s \<longrightarrow>
             num_planes (format r) \<noteq> 1 \<and> num_planes (format (ref_clip s)) \<noteq> 1))"
proof (intro conjI impI)
  assume one: "num_planes (format r) = 1"
  then have "built conv (cls\<lparr>decl_output_per_plane := False\<rparr>) r cs
        = built conv (cls\<lparr>decl_output_per_plane := True\<rparr>) r cs"
    by (simp add: built_def flags_of_def)
  then show "init conv (cls\<lparr>decl_output_per_plane := False\<rparr>) r cs
        = init conv (cls\<lparr>decl_output_per_plane := True\<rparr>) r cs"
    using one by (simp add: init_eq count_error_def flags_of_def split: option.splits)
next
  assume a: "init conv cls r cs = Inr s"
  then have s: "s = built conv cls r cs" by (rule init_Inr)
  show "select_strategy s \<noteq> Inr MergedSingle"
    using select_strategy_built [of conv cls r cs] s by blast
  { assume "num_planes (format r) = 1"
    then show "output_per_plane s" by (simp add: s built_def) }
  { assume "\<not> output_per_plane s"
    then show "num_planes (format r) \<noteq> 1" by (simp add: s built_def) }
  { assume "\<not> output_per_plane s"
    then show "num_planes (format (ref_clip s)) \<noteq> 1"
      by (simp add: s built_def format_normed) }
qed

theorem single_plane_output_witness:
  "init scale_conv merged_class (still gray8 2 [[1, 2]]) []
     = init scale_conv default_class (still gray8 2 [[1, 2]]) []
   \<and> \<not> isl (init scale_conv merged_class (still gray8 2 [[1, 2]]) [])
   \<and> output_per_plane (projr (init scale_conv merged_class (still gray8 2 [[1, 2]]) []))
   \<and> select_strategy (projr (init scale_conv merged_class (still gray8 2 [[1, 2]]) []))
       = Inr PlanesRef"
proof -
  let ?r = "still gray8 2 [[1, 2]]"
  let ?i = "init scale_conv merged_class ?r []"
  have one: "num_planes (format ?r) = 1" by (simp add: init_ev)
  have ok: "\<not> isl ?i" by (simp add: merged_class_def init_ev)
  then have h: "?i = Inr (projr ?i)" by (cases ?i) simp_all
  have c: "merged_class\<lparr>decl_output_per_plane := False\<rparr> = merged_class"
    "merged_class\<lparr>decl_output_per_plane := True\<rparr> = default_class"
    by (simp_all add: merged_class_def default_class_def)
  have sel: "select_strategy (projr ?i) = Inr PlanesRef"
    by (simp add: merged_class_def init_ev select_strategy_def getitem_def)
  show ?thesis
    using one ok h sel single_plane_output [of ?r scale_conv merged_class "[]" "projr ?i"]
    by (auto simp: c)
qed

section \<open>Evaluating a frame index\<close>

text \<open>
  C3. The session has two auxiliary clips, \<open>_input_per_plane\<close> is
  \<open>[True, False, False]\<close> and the output is per plane; at index \<open>n\<close> the three
  clips deliver the frames \<open>f0\<close>, \<open>f1\<close>, \<open>f2\<close>, and stacking the two
  auxiliary frames gives \<open>v1\<close> and \<open>v2\<close>. Then evaluating \<open>n\<close> takes these
  steps, in this order: one fetch of the three frames, one stacking of stream
  1, one stacking of stream 2, and for every plane \<open>p\<close> of the output frame,
  in ascending order, one call of the user function with the input list
  \<open>[plane p of f0, v1, v2]\<close>, the output plane \<open>p\<close> and the plane index \<open>p\<close>.
  The frame returned is the copy of \<open>f0\<close> after these calls of the user
  function, applied one after the other.
\<close>

theorem scenario_b:
  assumes "clips s = [c1, c2]"
    and "priv_input_per_plane s = [True, False, False]"
    and "output_per_plane s"
    and "get_frame (ref_clip s) n = Inr f0"
    and "get_frame c1 n = Inr f1"
    and "get_frame c2 n = Inr f2"
    and "stack_frame (is_single_plane s) f1 1 = Inr v1"
    and "stack_frame (is_single_plane s) f2 2 = Inr v2"
  shows "\<exists>g. output_closure proc s = Inr g
      \<and> g n = Inr
           (foldl (\<lambda>fo p. proc fo (Many [Plane (f0 ! p), v1, v2]) (DstPlane p) (Some p) n)
              f0 [0..<length f0],
            FetchMany 3 n # StackFrame 1 # StackFrame 2
              # map (\<lambda>p. Process (Many [Plane (f0 ! p), v1, v2]) (DstPlane p) (Some p) n)
                  [0..<length f0])"
proof -
  have sel: "select_strategy s = Inr PlanesClips"
    using assms(1,3) by (simp add: select_strategy_def)
  have n: "n < num_frames (ref_clip s)" using assms(4) by (simp add: get_frame_Inr)
  have gf: "get_frames (ref_clip s # clips s) n = Inr [f0, f1, f2]"
    using assms(1,4,5,6) by simp
  have s1: "stack_frame (is_single_plane s) f1 (Suc 0) = Inr v1"
    using assms(7) by simp
  have s2: "stack_frame (is_single_plane s) f2 (Suc (Suc 0)) = Inr v2"
    using assms(8) by (simp add: numeral_2_eq_2)
  have mk: "\<forall>p \<in> set [0..<length f0].
      map_sum id Many (inputs_data [True, False, False] [(1, v1), (2, v2)] p 0 [f0, f1, f2])
        = Inr (Many [Plane (f0 ! p), v1, v2])"
    by (simp add: getitem_def numeral_2_eq_2)
  have "output_planes_clips proc s n
      = plane_loop proc
          (\<lambda>p. map_sum id Many
             (inputs_data [True, False, False] [(1, v1), (2, v2)] p 0 [f0, f1, f2]))
          n [0..<length f0] (f0, [FetchMany 3 n, StackFrame 1, StackFrame 2])"
    unfolding output_planes_clips_def gf assms(2)
    by (simp add: getitem_def assms(1) s1 s2 numeral_2_eq_2 numeral_3_eq_3
        del: inputs_data.simps)
  also have "\<dots>
      = Inr (foldl (\<lambda>fo p. proc fo (Many [Plane (f0 ! p), v1, v2]) (DstPlane p) (Some p) n)
               f0 [0..<length f0],
             FetchMany 3 n # StackFrame 1 # StackFrame 2
               # map (\<lambda>p. Process (Many [Plane (f0 ! p), v1, v2]) (DstPlane p) (Some p) n)
                   [0..<length f0])"
    by (subst plane_loop_eq [OF mk]) simp
  finally show ?thesis using output_closure_eq [OF sel n, of proc] by auto
qed

theorem scenario_b_witness:
  "\<not> isl (init scale_conv scenario_b_class yuv_ref [gray_aux, yuv_aux])
   \<and> priv_input_per_plane scenario_b_session = [True, False, False]
   \<and> projr (output_closure double_process scenario_b_session) 5
       = Inr ([[2], [4], [6]],
          [FetchMany 3 5, StackFrame 1, StackFrame 2,
           Process (Many [Plane [1], Plane [4], Stack [[5], [6], [7]]]) (DstPlane 0) (Some 0) 5,
           Process (Many [Plane [2], Plane [4], Stack [[5], [6], [7]]]) (DstPlane 1) (Some 1) 5,
           Process (Many [Plane [3], Plane [4], Stack [[5], [6], [7]]]) (DstPlane 2) (Some 2) 5])"
proof -
  have h1: "clips scenario_b_session = [gray_aux, yuv_aux]"
    by (simp add: scenario_b_session_eq)
  have h2: "priv_input_per_plane scenario_b_session = [True, False, False]"
    by (simp add: scenario_b_session_eq)
  have h3: "output_per_plane scenario_b_session"
    by (simp add: scenario_b_session_eq)
  have h4: "get_frame (ref_clip scenario_b_session) 5 = Inr [[1], [2], [3]]"
    by (simp add: scenario_b_session_eq get_frame_def yuv_ref_def still_def)
  have h5: "get_frame gray_aux 5 = Inr [[4]]"
    by (simp add: get_frame_def gray_aux_def still_def)
  have h6: "get_frame yuv_aux 5 = Inr [[5], [6], [7]]"
    by (simp add: get_frame_def yuv_aux_def still_def)
  have h7: "stack_frame (is_single_plane scenario_b_session) [[4]] 1 = Inr (Plane [4])"
    by (simp add: scenario_b_session_eq stack_frame_def getitem_def)
  have h8: "stack_frame (is_single_plane scenario_b_session) [[5], [6], [7]] 2
      = Inr (Stack [[5], [6], [7]])"
    by (simp add: scenario_b_session_eq stack_frame_def getitem_def)
  obtain g where "output_closure double_process scenario_b_session = Inr g"
    and "g 5 = Inr
           (foldl (\<lambda>fo p. double_process fo
                      (Many [Plane ([[1], [2], [3]] ! p), Plane [4], Stack [[5], [6], [7]]])
                      (DstPlane p) (Some p) 5)
              [[1], [2], [3]] [0..<length [[1 :: real], [2], [3]]],
            FetchMany 3 5 # StackFrame 1 # StackFrame 2
              # map (\<lambda>p. Process (Many [Plane ([[1], [2], [3]] ! p), Plane [4],
                                         Stack [[5], [6], [7]]]) (DstPlane p) (Some p) 5)
                  [0..<length [[1 :: real], [2], [3]]])"
    using scenario_b [OF h1 h2 h3 h4 h5 h6 h7 h8, of double_process] by blast
  then show ?thesis
    using h2 by (simp add: scenario_b_built upt_rec [of 0] upt_rec [of 1] upt_rec [of 2])
qed

text \<open>
  C4, as the code has it. In a constructed session whose output is not per
  plane, evaluating an index at which the frames are delivered calls the user
  function exactly once, with the whole output frame as destination and no
  plane index. With auxiliary clips the input is the list of the stacked views
  of all streams, built by \<open>_stack_frame\<close> for every stream whatever its
  per-plane flag is (every stream is stacked once). Without auxiliary clips
  the input is the reference frame itself.
\<close>

theorem merged_output_call:
  assumes "init conv cls r cs = Inr s"
    and "\<not> output_per_plane s"
    and "get_frames (ref_clip s # clips s) n = Inr (f0 # fs)"
  shows "\<exists>g. output_closure proc s = Inr g
      \<and> (clips s = [] \<longrightarrow>
           g n = Inr (proc f0 (Whole f0) DstFrame None n,
                      [FetchOne n, Process (Whole f0) DstFrame None n]))
      \<and> (clips s \<noteq> [] \<longrightarrow>
           (\<forall>arrays. src_arrays (is_single_plane s) 0 (f0 # fs) = Inr arrays \<longrightarrow>
              g n = Inr (proc f0 (Many arrays) DstFrame None n,
                         FetchMany (1 + length (clips s)) n
                           # map StackFrame [0..<1 + length (clips s)]
                           @ [Process (Many arrays) DstFrame None n])
              \<and> length arrays = 1 + length (clips s)
              \<and> (\<forall>i < length arrays.
                    stack_frame (is_single_plane s) ((f0 # fs) ! i) i = Inr (arrays ! i))))"
proof -
  have s: "s = built conv cls r cs" using assms(1) by (rule init_Inr)
  have np: "num_planes (format (ref_clip s)) \<noteq> 1"
    using assms(2) by (simp add: s built_def format_normed)
  have gf: "get_frame (ref_clip s) n = Inr f0" and gfs: "get_frames (clips s) n = Inr fs"
    using get_frames_Cons [OF assms(3)] by simp_all
  have n: "n < num_frames (ref_clip s)" using gf by (simp add: get_frame_Inr)
  have len: "length fs = length (clips s)" using gfs by (rule get_frames_length)
  show ?thesis
  proof (cases "clips s = []")
    case True
    then have sel: "select_strategy s = Inr MergedFrame"
      using assms(2) np by (simp add: select_strategy_def)
    have "output_merged_frame proc s n
        = Inr (proc f0 (Whole f0) DstFrame None n, [FetchOne n, Process (Whole f0) DstFrame None n])"
      by (simp add: output_merged_frame_def gf)
    then show ?thesis using output_closure_eq [OF sel n, of proc] True by auto
  next
    case False
    then have sel: "select_strategy s = Inr MergedClips"
      using assms(2) by (simp add: select_strategy_def)
    have run: "src_arrays (is_single_plane s) 0 (f0 # fs) = Inr arrays \<Longrightarrow>
        output_merged_clips proc s n
          = Inr (proc f0 (Many arrays) DstFrame None n,
                 FetchMany (1 + length (clips s)) n
                   # map StackFrame [0..<1 + length (clips s)]
                   @ [Process (Many arrays) DstFrame None n])" for arrays
      unfolding output_merged_clips_def assms(3)
      by (simp add: getitem_def len)
    have nth: "src_arrays (is_single_plane s) 0 (f0 # fs) = Inr arrays \<Longrightarrow>
        length arrays = 1 + length (clips s)
        \<and> (\<forall>i < length arrays.
              stack_frame (is_single_plane s) ((f0 # fs) ! i) i = Inr (arrays ! i))" for arrays
      using src_arrays_nth [of "is_single_plane s" 0 "f0 # fs" arrays] len by simp
    obtain g where g: "output_closure proc s = Inr g" "g n = output_merged_clips proc s n"
      using output_closure_eq [OF sel n, of proc] by auto
    show ?thesis using g run nth False by auto
  qed
qed

theorem merged_output_call_witness:
  "\<not> isl (init scale_conv merged_class yuv_ref [yuv_aux])
   \<and> \<not> output_per_plane merged_session
   \<and> priv_input_per_plane merged_session = [True, True]
   \<and> projr (output_closure copy_process merged_session) 5
       = Inr ([[1], [2], [3]],
              [FetchMany 2 5, StackFrame 0, StackFrame 1,
               Process (Many [Stack [[1], [2], [3]], Stack [[5], [6], [7]]]) DstFrame None 5])"
proof -
  let ?i = "init scale_conv merged_class yuv_ref [yuv_aux]"
  have ok: "\<not> isl ?i" by (simp add: merged_session_init)
  then have h1: "?i = Inr merged_session"
    by (cases ?i) (simp_all add: merged_session_def)
  have h2: "\<not> output_per_plane merged_session" by (simp add: merged_session_eq)
  have h3: "get_frames (ref_clip merged_session # clips merged_session) 5
      = Inr ([[1], [2], [3]] # [[[5], [6], [7]]])"
    by (simp add: merged_session_eq get_frame_def yuv_ref_def yuv_aux_def still_def)
  have c: "clips merged_session \<noteq> []" "length (clips merged_session) = 1"
    by (simp_all add: merged_session_eq)
  have a: "src_arrays (is_single_plane merged_session) 0 ([[1], [2], [3]] # [[[5], [6], [7]]])
      = Inr [Stack [[1], [2], [3]], Stack [[5], [6], [7]]]"
    by (simp add: merged_session_eq stack_frame_def getitem_def)
  obtain g where "output_closure copy_process merged_session = Inr g"
    and "g 5 = Inr (copy_process [[1], [2], [3]]
                      (Many [Stack [[1], [2], [3]], Stack [[5], [6], [7]]]) DstFrame None 5,
                    FetchMany (1 + length (clips merged_session)) 5
                      # map StackFrame [0..<1 + length (clips merged_session)]
                      @ [Process (Many [Stack [[1], [2], [3]], Stack [[5], [6], [7]]])
                           DstFrame None 5])"
    using merged_output_call [OF h1 h2 h3, of copy_process] c a by blast
  then show ?thesis
    using ok h2 by (simp add: merged_session_eq c upt_rec [of 0] upt_rec [of 1])
qed

text \<open>
  C4 as stated fails: the input list of a merged-output call does not follow
  the selection rule of the per-plane closures (\<open>inputs_data\<close>). Both flags of
  this session are true, yet the call receives the stacked views of both
  streams, which \<open>inputs_data\<close> yields for no plane index.
\<close>

theorem merged_output_call_counterexample:
  "priv_input_per_plane merged_session = [True, True]
   \<and> snd (projr (projr (output_closure copy_process merged_session) 5))
       = [FetchMany 2 5, StackFrame 0, StackFrame 1,
          Process (Many [Stack [[1], [2], [3]], Stack [[5], [6], [7]]]) DstFrame None 5]
   \<and> \<not> (\<exists>pre p. inputs_data (priv_input_per_plane merged_session) pre p 0
                    [[[1], [2], [3]], [[5], [6], [7]]]
                  = Inr [Stack [[1], [2], [3]], Stack [[5], [6], [7]]])"
proof -
  have a: "priv_input_per_plane merged_session = [True, True]"
    by (simp add: merged_session_eq)
  have b: "snd (projr (projr (output_closure copy_process merged_session) 5))
       = [FetchMany 2 5, StackFrame 0, StackFrame 1,
          Process (Many [Stack [[1], [2], [3]], Stack [[5], [6], [7]]]) DstFrame None 5]"
    by (simp add: merged_session_run)
  have c: "\<not> (\<exists>pre p. inputs_data (priv_input_per_plane merged_session) pre p 0
                    [[[1], [2], [3]], [[5], [6], [7]]]
                  = Inr [Stack [[1], [2], [3]], Stack [[5], [6], [7]]])"
    unfolding a by (auto simp: getitem_def split: sum.splits if_splits)
  show ?thesis using a b c by blast
qed

text \<open>
  C5, as the code has it. The streams of a session deliver their frames at
  index \<open>n\<close>, the frames fit the session (as they do in every session
  constructed from well-formed clips, by \<open>init_frames_ok\<close>), and, when the
  output is per plane and there are auxiliary clips, every stream presented per
  plane has at least as many planes as the reference frame. Then, whichever of
  the six closures \<open>invoke\<close> selects, with the copying user function the
  frame of the returned clip at \<open>n\<close> is the frame of the session's normalised
  reference clip at \<open>n\<close> put through \<open>ensure_output\<close>; when the output format
  is the format of the normalised reference clip it is that frame itself. It is
  the frame of the reference clip the session was constructed from when
  \<open>norm_clip\<close> returned that clip itself, as it does when neither
  \<open>float_processing\<close> nor \<open>shift_chroma\<close> is set (\<open>normed_unchanged\<close>).
\<close>

theorem copy_round_trip:
  assumes "get_frames (ref_clip s # clips s) n = Inr frames"
    and "frames_ok s frames"
    and "output_per_plane s \<and> clips s \<noteq> [] \<longrightarrow> planes_ok s frames"
  shows "\<exists>c. invoke conv copy_process s = Inr c
      \<and> frame_at (ref_clip s) n = Inr (frames ! 0)
      \<and> frame_at c n = frame_at (ensure_output conv s (ref_clip s)) n
      \<and> (out_format s = format (ref_clip s) \<longrightarrow> frame_at c n = Inr (frames ! 0))
      \<and> (\<forall>conv0 cls r cs. init conv0 cls r cs = Inr s \<and> ref_clip s = r \<longrightarrow>
             frame_at c n = frame_at r n)"
proof -
  obtain st tr where sel: "select_strategy s = Inr st"
    and run: "run_strategy st copy_process s n = Inr (frames ! 0, tr)"
    using copy_run [OF assms] by blast
  obtain f0 fs where fr: "frames = f0 # fs"
    using assms(1) by (cases frames) (auto split: sum.splits)
  have g0: "get_frame (ref_clip s) n = Inr f0"
    using get_frames_Cons [OF assms(1) [unfolded fr]] by simp
  then have n: "n < num_frames (ref_clip s)" and fa: "frame_at (ref_clip s) n = Inr f0"
    by (simp_all add: get_frame_Inr)
  obtain g where g: "output_closure copy_process s = Inr g"
    and gn: "g n = run_strategy st copy_process s n"
    using output_closure_eq [OF sel n, of copy_process] by blast
  let ?x = "\<lparr>format = format (ref_clip s), num_frames = num_frames (ref_clip s),
             frame_at = (\<lambda>n. map_sum id fst (g n))\<rparr>"
  have inv: "invoke conv copy_process s = Inr (ensure_output conv s ?x)"
    by (simp add: invoke_def g)
  have x: "frame_at ?x n = Inr f0" by (simp add: gn run fr)
  have eq: "frame_at (ensure_output conv s ?x) n = frame_at (ensure_output conv s (ref_clip s)) n"
    by (simp add: ensure_output_def resize_def x fa gn run fr)
  have same: "out_format s = format (ref_clip s) \<longrightarrow>
      frame_at (ensure_output conv s ?x) n = Inr (frames ! 0)"
    by (simp add: ensure_output_def gn run fr)
  have orig: "\<forall>conv0 cls r cs. init conv0 cls r cs = Inr s \<and> ref_clip s = r \<longrightarrow>
      frame_at (ensure_output conv s ?x) n = frame_at r n"
  proof (intro allI impI)
    fix conv0 cls r cs
    assume a: "init conv0 cls r cs = Inr s \<and> ref_clip s = r"
    then have "s = built conv0 cls r cs" by (intro init_Inr) simp
    then have "out_format s = format r" by (simp add: built_def)
    then have "out_format s = format (ref_clip s)" using a by simp
    then show "frame_at (ensure_output conv s ?x) n = frame_at r n"
      using same fa a by (simp add: fr)
  qed
  show ?thesis using inv fa eq same orig by (simp add: fr)
qed

theorem copy_round_trip_witness:
  "get_frames (ref_clip scenario_b_session # clips scenario_b_session) 5
     = Inr [[[1], [2], [3]], [[4]], [[5], [6], [7]]]
   \<and> frames_ok scenario_b_session [[[1], [2], [3]], [[4]], [[5], [6], [7]]]
   \<and> planes_ok scenario_b_session [[[1], [2], [3]], [[4]], [[5], [6], [7]]]
   \<and> frame_at (ref_clip scenario_b_session) 5 = Inr [[1], [2], [3]]
   \<and> frame_at (projr (invoke scale_conv copy_process scenario_b_session)) 5
       = Inr [[1], [2], [3]]
   \<and> frame_at (projr (invoke scale_conv copy_process scenario_b_session)) 5
       = frame_at yuv_ref 5"
proof -
  let ?fr = "[[[1], [2], [3]], [[4]], [[5], [6], [7]]] :: frame list"
  have h1: "get_frames (ref_clip scenario_b_session # clips scenario_b_session) 5 = Inr ?fr"
    by (simp add: scenario_b_session_eq get_frame_def yuv_ref_def gray_aux_def yuv_aux_def
        still_def)
  have i: "init scale_conv scenario_b_class yuv_ref [gray_aux, yuv_aux]
      = Inr scenario_b_session"
    by (simp add: scenario_b_session_def scenario_b_built)
  have c: "\<forall>c \<in> set [yuv_ref, gray_aux, yuv_aux]. clip_ok c"
    by (simp add: yuv_ref_def gray_aux_def yuv_aux_def clip_ok_still yuv444p8_def gray8_def)
  have h2: "frames_ok scenario_b_session ?fr"
    using i c h1 by (rule init_frames_ok)
  have p: "planes_ok scenario_b_session ?fr"
    by (auto simp: planes_ok_def scenario_b_session_eq nth_Cons split: nat.splits)
  then have h3: "output_per_plane scenario_b_session \<and> clips scenario_b_session \<noteq> []
      \<longrightarrow> planes_ok scenario_b_session ?fr"
    by simp
  have f: "out_format scenario_b_session = format (ref_clip scenario_b_session)"
    by (simp add: scenario_b_session_eq)
  have r: "ref_clip scenario_b_session = yuv_ref"
    by (simp add: scenario_b_session_eq)
  obtain c' where "invoke scale_conv copy_process scenario_b_session = Inr c'"
    and "frame_at (ref_clip scenario_b_session) 5 = Inr (?fr ! 0)"
    and "out_format scenario_b_session = format (ref_clip scenario_b_session)
           \<longrightarrow> frame_at c' 5 = Inr (?fr ! 0)"
    and "\<forall>conv0 cls r cs. init conv0 cls r cs = Inr scenario_b_session
             \<and> ref_clip scenario_b_session = r \<longrightarrow> frame_at c' 5 = frame_at r 5"
    using copy_round_trip [OF h1 h2 h3, of scale_conv] by blast
  then show ?thesis using h1 h2 p f i r by auto
qed

text \<open>
  C5 as stated fails, in two ways. A three-plane reference clip with a
  one-plane auxiliary clip and the default flags is a session that constructs,
  both clips deliver their frame at index 5, and evaluating that index raises
  \<open>IndexError\<close> (\<open>frame[1]\<close> of the one-plane frame), whatever the user function
  is. And a three-plane float reference clip with \<open>shift_chroma\<close> set is a
  session that constructs, whose output format is the format of its normalised
  reference clip, and whose output frame at index 5 is not the frame of the
  reference clip: the \<open>0.5\<close> that \<open>norm_clip\<close> added to the second and third
  plane is still there, since \<open>ensure_output\<close> compares formats only and nothing
  in the module takes the offset away.
\<close>

theorem copy_round_trip_counterexample:
  "\<not> isl (init scale_conv default_class yuv_ref [gray_aux])
   \<and> get_frame yuv_ref 5 = Inr [[1], [2], [3]]
   \<and> get_frame gray_aux 5 = Inr [[4]]
   \<and> \<not> isl (invoke scale_conv copy_process mixed_session)
   \<and> frame_at (projr (invoke scale_conv copy_process mixed_session)) 5 = Inl IndexError
   \<and> \<not> isl (init scale_conv shift_only_class float_ref [])
   \<and> out_format shifted_session = format (ref_clip shifted_session)
   \<and> get_frame float_ref 5 = Inr [[1 / 4], [0], [- 1 / 4]]
   \<and> \<not> isl (invoke scale_conv copy_process shifted_session)
   \<and> frame_at (projr (invoke scale_conv copy_process shifted_session)) 5
       = Inr [[1 / 4], [1 / 2], [1 / 4]]"
proof -
  have a: "\<not> isl (init scale_conv shift_only_class float_ref [])"
    by (simp add: shifted_session_init)
  have b: "out_format shifted_session = format (ref_clip shifted_session)"
    by (simp add: shifted_session_eq std_Expr_def float_ref_def still_def)
  have c: "get_frame float_ref 5 = Inr [[1 / 4], [0], [- 1 / 4]]"
    by (simp add: get_frame_def float_ref_def still_def)
  show ?thesis using mixed_run a b c shifted_run by blast
qed

end
